theory Spec2Isabelle
  imports Main "HOL-Library.AList"
begin

section \<open>JSON values and the Python operations applied to them\<close>

text \<open>
  Both converters work on the result of \<^verbatim>\<open>json.load\<close>. A JSON document is a value of
  type \<open>json\<close>; Python's \<^verbatim>\<open>None\<close> is \<open>JNull\<close>. An object is an association list in
  insertion order, as Python dictionaries iterate; a dictionary has distinct keys.
  Numbers are Python integers (JSON numbers with a fraction or exponent are not part of the
  model). A \<open>string\<close> stands for the Python string with the same code points, so the model
  covers exactly the strings whose code points are below 256.
\<close>

datatype json =
    JNull
  | JBool bool
  | JNum int
  | JStr string
  | JList "json list"
  | JObj "(string \<times> json) list"

type_synonym pydict = "(string \<times> json) list"

text \<open>
  The exceptions the code can raise. \<open>Unmodelled\<close> is not a Python exception: it marks the
  one place (\<^verbatim>\<open>dict(...)\<close> applied to a non-empty list) whose result need not be a
  dictionary with string keys and so has no counterpart in \<open>json\<close>.
\<close>

datatype py_error = TypeError | AttributeError | KeyError | IndexError | ValueError | Unmodelled

fun truthy :: "json \<Rightarrow> bool" where
  "truthy JNull = False"
| "truthy (JBool b) = b"
| "truthy (JNum n) = (n \<noteq> 0)"
| "truthy (JStr s) = (s \<noteq> [])"
| "truthy (JList xs) = (xs \<noteq> [])"
| "truthy (JObj kv) = (kv \<noteq> [])"

definition dict_get :: "pydict \<Rightarrow> string \<Rightarrow> json \<Rightarrow> json" where
  \<comment> \<open>\<^verbatim>\<open>d.get(k, default)\<close>; \<^verbatim>\<open>d.get(k)\<close> is \<open>dict_get d k JNull\<close>.\<close>
  "dict_get d k dflt = (case map_of d k of None \<Rightarrow> dflt | Some v \<Rightarrow> v)"

definition dict_update :: "pydict \<Rightarrow> pydict \<Rightarrow> pydict" where
  \<comment> \<open>\<^verbatim>\<open>d.update(other)\<close>: the entries of \<open>other\<close> are stored in their order.\<close>
  "dict_update d other = fold (\<lambda>(k, v) acc. AList.update k v acc) other d"

definition startswith :: "string \<Rightarrow> string \<Rightarrow> bool" where
  "startswith s p = (take (length p) s = p)"

fun py_in_str :: "string \<Rightarrow> string \<Rightarrow> bool" where
  \<comment> \<open>\<^verbatim>\<open>p in s\<close> on two strings: \<open>p\<close> occurs in \<open>s\<close> as a substring.\<close>
  "py_in_str p [] = (p = [])"
| "py_in_str p (c # cs) = (startswith (c # cs) p \<or> py_in_str p cs)"

fun join :: "string \<Rightarrow> string list \<Rightarrow> string" where
  "join sep [] = []"
| "join sep [x] = x"
| "join sep (x # y # ys) = x @ sep @ join sep (y # ys)"

fun split_char :: "char \<Rightarrow> string \<Rightarrow> string list" where
  \<comment> \<open>\<^verbatim>\<open>s.split(sep)\<close> for a separator of one character.\<close>
  "split_char sep [] = [[]]"
| "split_char sep (c # cs) =
     (if c = sep then [] # split_char sep cs
      else (case split_char sep cs of [] \<Rightarrow> [[c]] | p # ps \<Rightarrow> (c # p) # ps))"

definition split_once :: "char \<Rightarrow> string \<Rightarrow> string list" where
  \<comment> \<open>\<^verbatim>\<open>s.split(sep, 1)\<close> for a separator of one character.\<close>
  "split_once sep s =
     (if sep \<in> set s
      then [takeWhile (\<lambda>c. c \<noteq> sep) s, tl (dropWhile (\<lambda>c. c \<noteq> sep) s)]
      else [s])"

definition py_index :: "'a list \<Rightarrow> nat \<Rightarrow> py_error + 'a" where
  \<comment> \<open>\<^verbatim>\<open>xs[i]\<close> for a non-negative index.\<close>
  "py_index xs i = (if i < length xs then Inr (xs ! i) else Inl IndexError)"

definition replace_char :: "char \<Rightarrow> char \<Rightarrow> string \<Rightarrow> string" where
  \<comment> \<open>\<^verbatim>\<open>s.replace(a, b)\<close> for two strings of one character.\<close>
  "replace_char a b s = map (\<lambda>c. if c = a then b else c) s"

definition remove_char :: "char \<Rightarrow> string \<Rightarrow> string" where
  \<comment> \<open>\<^verbatim>\<open>s.replace(a, '')\<close>.\<close>
  "remove_char a s = filter (\<lambda>c. c \<noteq> a) s"

definition alnum_char :: "char \<Rightarrow> bool" where
  \<comment> \<open>The code points below 256 that Python classifies as alphanumeric.\<close>
  "alnum_char c =
     (let n = (of_char c :: nat) in
        (48 \<le> n \<and> n \<le> 57) \<or> (65 \<le> n \<and> n \<le> 90) \<or> (97 \<le> n \<and> n \<le> 122)
        \<or> n = 170 \<or> n = 178 \<or> n = 179 \<or> n = 181 \<or> n = 185 \<or> n = 186
        \<or> (188 \<le> n \<and> n \<le> 190) \<or> (192 \<le> n \<and> n \<le> 214)
        \<or> (216 \<le> n \<and> n \<le> 246) \<or> 248 \<le> n)"

definition isalnum :: "string \<Rightarrow> bool" where
  "isalnum s = (s \<noteq> [] \<and> list_all alnum_char s)"

subsection \<open>Conversion to text: \<^verbatim>\<open>str\<close> and \<^verbatim>\<open>repr\<close>\<close>

definition digit_char :: "nat \<Rightarrow> char" where
  "digit_char d = ''0123456789abcdef'' ! d"

function str_nat :: "nat \<Rightarrow> string" where
  "str_nat n = (if n < 10 then [digit_char n] else str_nat (n div 10) @ [digit_char (n mod 10)])"
  by pat_completeness auto
termination
  by (relation "measure (\<lambda>n. n)") auto

declare str_nat.simps [simp del]

definition str_int :: "int \<Rightarrow> string" where
  "str_int i = (if i < 0 then CHR ''-'' # str_nat (nat (- i)) else str_nat (nat i))"

definition printable_char :: "char \<Rightarrow> bool" where
  "printable_char c =
     (let n = (of_char c :: nat) in \<not> (n < 32 \<or> n = 127 \<or> (128 \<le> n \<and> n \<le> 160) \<or> n = 173))"

definition repr_char :: "char \<Rightarrow> char \<Rightarrow> string" where
  "repr_char q c =
     (if c = q \<or> c = CHR 0x5C then [CHR 0x5C, c]
      else if c = CHR 0x09 then [CHR 0x5C, CHR ''t'']
      else if c = CHR 0x0A then [CHR 0x5C, CHR ''n'']
      else if c = CHR 0x0D then [CHR 0x5C, CHR ''r'']
      else if \<not> printable_char c
        then [CHR 0x5C, CHR ''x'', digit_char (of_char c div 16), digit_char (of_char c mod 16)]
      else [c])"

definition repr_str :: "string \<Rightarrow> string" where
  "repr_str s =
     (let q = (if CHR 0x27 \<in> set s \<and> CHR 0x22 \<notin> set s then CHR 0x22 else CHR 0x27)
      in q # concat (map (repr_char q) s) @ [q])"

fun py_repr :: "json \<Rightarrow> string" where
  "py_repr JNull = ''None''"
| "py_repr (JBool b) = (if b then ''True'' else ''False'')"
| "py_repr (JNum n) = str_int n"
| "py_repr (JStr s) = repr_str s"
| "py_repr (JList xs) = ''['' @ join '', '' (map py_repr xs) @ '']''"
| "py_repr (JObj kv) =
     ''{'' @ join '', '' (map (\<lambda>(k, v). repr_str k @ '': '' @ py_repr v) kv) @ ''}''"

definition py_str :: "json \<Rightarrow> string" where
  \<comment> \<open>\<^verbatim>\<open>str(v)\<close>, also what an f-string inserts for \<^verbatim>\<open>{v}\<close>.\<close>
  "py_str v = (case v of JStr s \<Rightarrow> s | _ \<Rightarrow> py_repr v)"

subsection \<open>Lookups with a JSON value as the key\<close>

fun table_get :: "(string \<times> 'a) list \<Rightarrow> json \<Rightarrow> py_error + 'a option" where
  \<comment> \<open>\<^verbatim>\<open>key in TABLE\<close> and \<^verbatim>\<open>TABLE.get(key)\<close> on a class constant with string keys:
      a list or a dictionary is not hashable, any other non-string is simply absent.\<close>
  "table_get t (JStr s) = Inr (map_of t s)"
| "table_get t (JList xs) = Inl TypeError"
| "table_get t (JObj kv) = Inl TypeError"
| "table_get t v = Inr None"

fun dict_key :: "json \<Rightarrow> py_error + json" where
  \<comment> \<open>The key under which a dictionary stores a value: \<^verbatim>\<open>True\<close> and \<^verbatim>\<open>1\<close>, and
      \<^verbatim>\<open>False\<close> and \<^verbatim>\<open>0\<close>, are the same key.\<close>
  "dict_key (JList xs) = Inl TypeError"
| "dict_key (JObj kv) = Inl TypeError"
| "dict_key (JBool b) = Inr (JNum (if b then 1 else 0))"
| "dict_key v = Inr v"

fun py_iter :: "json \<Rightarrow> py_error + json list" where
  \<comment> \<open>The elements a \<^verbatim>\<open>for\<close> loop visits.\<close>
  "py_iter (JList xs) = Inr xs"
| "py_iter (JStr s) = Inr (map (\<lambda>c. JStr [c]) s)"
| "py_iter (JObj kv) = Inr (map (\<lambda>(k, v). JStr k) kv)"
| "py_iter v = Inl TypeError"

fun for_each :: "('s \<Rightarrow> 'a \<Rightarrow> py_error + 's) \<Rightarrow> 's \<Rightarrow> 'a list \<Rightarrow> py_error + 's" where
  \<comment> \<open>A loop whose body updates the state; the first exception ends it.\<close>
  "for_each body st [] = Inr st"
| "for_each body st (x # xs) =
     (case body st x of Inl e \<Rightarrow> Inl e | Inr st' \<Rightarrow> for_each body st' xs)"

fun map_each :: "('a \<Rightarrow> py_error + 'b) \<Rightarrow> 'a list \<Rightarrow> py_error + 'b list" where
  \<comment> \<open>A loop that appends one result per element; the first exception ends it.\<close>
  "map_each f [] = Inr []"
| "map_each f (x # xs) =
     (case f x of Inl e \<Rightarrow> Inl e
      | Inr y \<Rightarrow> (case map_each f xs of Inl e \<Rightarrow> Inl e | Inr ys \<Rightarrow> Inr (y # ys)))"

definition dq :: string where
  \<comment> \<open>The double quote.\<close>
  "dq = [CHR 0x22]"

definition esc_n :: string where
  \<comment> \<open>The Python literal \<^verbatim>\<open>'\\n'\<close>: a backslash and the letter n.\<close>
  "esc_n = [CHR 0x5C, CHR ''n'']"

section \<open>ld2viz.py: class ProvJsonldToGraphviz\<close>

definition NODE_SHAPES :: "(string \<times> string) list" where
  "NODE_SHAPES =
     [(''prov:Entity'', ''ellipse''), (''prov:Activity'', ''box''), (''prov:Agent'', ''house'')]"

definition NODE_COLORS :: "(string \<times> string) list" where
  "NODE_COLORS =
     [(''prov:Entity'', ''#FFFC87''), (''prov:Activity'', ''#9FB1FC''),
      (''prov:Agent'', ''#FDB266'')]"

definition EDGE_STYLES :: "(string \<times> (string \<times> string) list) list" where
  "EDGE_STYLES =
     [(''prov:Generation'', [(''label'', ''wasGeneratedBy''), (''style'', ''solid''),
         (''dir'', ''back''), (''color'', ''#006400'')]),
      (''prov:Usage'', [(''label'', ''used''), (''style'', ''solid''),
         (''dir'', ''forward''), (''color'', ''#8b0101'')]),
      (''prov:Derivation'', [(''label'', ''wasDerivedFrom''), (''style'', ''solid''),
         (''dir'', ''back'')]),
      (''prov:Association'', [(''label'', ''wasAssociatedWith''), (''style'', ''solid''),
         (''dir'', ''forward''), (''color'', ''#fed37f'')]),
      (''prov:Attribution'', [(''label'', ''wasAttributedTo''), (''style'', ''dashed''),
         (''dir'', ''back'')]),
      (''prov:Communication'', [(''label'', ''wasInformedBy''), (''style'', ''solid''),
         (''dir'', ''back'')]),
      (''prov:Delegation'', [(''label'', ''actedOnBehalfOf''), (''style'', ''dashed''),
         (''dir'', ''back'')]),
      (''prov:Start'', [(''label'', ''wasStartedBy''), (''style'', ''solid''),
         (''dir'', ''back'')]),
      (''prov:End'', [(''label'', ''wasEndedBy''), (''style'', ''solid''),
         (''dir'', ''back'')]),
      (''prov:Invalidation'', [(''label'', ''wasInvalidatedBy''), (''style'', ''solid''),
         (''dir'', ''back'')]),
      (''prov:Influence'', [(''label'', ''wasInfluencedBy''), (''style'', ''dotted''),
         (''dir'', ''back'')]),
      (''provext:Specialization'', [(''label'', ''specializationOf''), (''style'', ''solid''),
         (''dir'', ''back''), (''arrowhead'', ''onormal'')]),
      (''provext:Alternate'', [(''label'', ''alternateOf''), (''style'', ''dashed''),
         (''dir'', ''none'')]),
      (''provext:Membership'', [(''label'', ''hadMember''), (''style'', ''dotted''),
         (''dir'', ''forward'')])]"

definition REFERENCE_PROPERTIES :: "string list" where
  "REFERENCE_PROPERTIES =
     [''entity'', ''activity'', ''agent'', ''generatedEntity'', ''usedEntity'',
      ''informed'', ''informant'', ''trigger'', ''starter'', ''ender'',
      ''delegate'', ''responsible'', ''plan'', ''influencee'', ''influencer'',
      ''specificEntity'', ''generalEntity'', ''alternate1'', ''alternate2'',
      ''collection'', ''generation'', ''usage'']"

record node =
  n_label :: json
  n_shape :: string
  n_fillcolor :: string
  n_style :: string
  n_type :: json

record edge =
  e_source :: json
  e_target :: json
  e_style :: string
  e_dir :: string
  e_arrowhead :: string
  e_color :: "string option"
  e_label :: "string option"

text \<open>
  The converter object. \<open>nodes\<close> is the dictionary from identifier to node descriptor, in
  insertion order, each key stored as \<open>dict_key\<close> gives it.
\<close>

record viz =
  show_attributes :: bool
  show_relation_labels :: bool
  direction :: string
  nodes :: "(json \<times> node) list"
  edges :: "edge list"
  namespaces :: pydict

definition init :: "bool \<Rightarrow> string \<Rightarrow> viz" where
  \<comment> \<open>\<^verbatim>\<open>__init__(show_attributes, direction)\<close>\<close>
  "init sa d = \<lparr>show_attributes = sa, show_relation_labels = True, direction = d,
     nodes = [], edges = [], namespaces = []\<rparr>"

definition extract_namespaces :: "viz \<Rightarrow> json list \<Rightarrow> viz" where
  "extract_namespaces st context =
     fold (\<lambda>ctx s. case ctx of JObj kv \<Rightarrow> s\<lparr>namespaces := dict_update (namespaces s) kv\<rparr>
                     | _ \<Rightarrow> s) context st"

fun first_namespace :: "pydict \<Rightarrow> string \<Rightarrow> string option" where
  \<comment> \<open>The loop of \<^verbatim>\<open>_shorten_uri\<close>: the first declared namespace that the URI starts with.\<close>
  "first_namespace [] uri = None"
| "first_namespace ((prefix, namespace) # rest) uri =
     (case namespace of
        JStr ns \<Rightarrow> (if startswith uri ns then Some (prefix @ '':'' @ drop (length ns) uri)
                   else first_namespace rest uri)
      | _ \<Rightarrow> first_namespace rest uri)"

definition shorten_uri :: "pydict \<Rightarrow> string \<Rightarrow> string" where
  "shorten_uri ns uri =
     (if uri = [] \<or> CHR '':'' \<notin> set uri then uri
      else if \<not> startswith uri ''http://'' \<and> \<not> startswith uri ''https://'' then uri
      else (case first_namespace ns uri of Some short \<Rightarrow> short | None \<Rightarrow> uri))"

definition value_object_label :: "bool \<Rightarrow> json \<Rightarrow> json option" where
  \<comment> \<open>What one label property yields in \<^verbatim>\<open>_get_label\<close>: the \<^verbatim>\<open>@value\<close> of the first
      element of a non-empty list, or (for the properties after \<^verbatim>\<open>prov:label\<close>) that
      element itself when it is a string.\<close>
  "value_object_label allow_str values =
     (case values of
        JList (value_obj # rest) \<Rightarrow>
          (case value_obj of
             JObj ob \<Rightarrow> map_of ob ''@value''
           | JStr s \<Rightarrow> (if allow_str then Some (JStr s) else None)
           | _ \<Rightarrow> None)
      | _ \<Rightarrow> None)"

fun label_props_loop :: "pydict \<Rightarrow> string list \<Rightarrow> json option" where
  "label_props_loop item [] = None"
| "label_props_loop item (label_prop # rest) =
     (case map_of item label_prop of
        None \<Rightarrow> label_props_loop item rest
      | Some values \<Rightarrow>
          (case value_object_label True values of
             Some v \<Rightarrow> Some v
           | None \<Rightarrow> label_props_loop item rest))"

definition id_label :: "json \<Rightarrow> py_error + json" where
  \<comment> \<open>The last part of \<^verbatim>\<open>_get_label\<close>: the label taken from \<^verbatim>\<open>item_id\<close>.\<close>
  "id_label item_id =
     (if truthy item_id then
        (case item_id of
           JStr s \<Rightarrow> (if CHR '':'' \<in> set s
                      then (case py_index (split_once CHR '':'' s) 1 of
                              Inl e \<Rightarrow> Inl e | Inr r \<Rightarrow> Inr (JStr r))
                      else Inr item_id)
         | JList xs \<Rightarrow> (if JStr '':'' \<in> set xs then Inl AttributeError else Inr item_id)
         | JObj kv \<Rightarrow> (if '':'' \<in> fst ` set kv then Inl AttributeError else Inr item_id)
         | _ \<Rightarrow> Inl TypeError)
      else Inr (JStr ''anonymous''))"

definition get_label :: "pydict \<Rightarrow> py_error + json" where
  "get_label item =
     (let item_id = dict_get item ''@id'' (JStr '''') in
      case (case map_of item ''prov:label'' of
              None \<Rightarrow> None | Some labels \<Rightarrow> value_object_label False labels) of
        Some v \<Rightarrow> Inr v
      | None \<Rightarrow>
          (case label_props_loop item
                  [''rdfs:label'', ''foaf:name'', ''dcterms:title'', ''name'', ''title''] of
             Some v \<Rightarrow> Inr v
           | None \<Rightarrow> id_label item_id))"

definition truncate30 :: "string \<Rightarrow> string" where
  "truncate30 val_str = (if length val_str > 30 then take 27 val_str @ ''...'' else val_str)"

definition skip_props :: "string list" where
  "skip_props =
     [''@type'', ''@id'', ''@context'', ''@graph'', ''prov:label'', ''rdfs:label'',
      ''foaf:name'', ''dcterms:title''] @ REFERENCE_PROPERTIES"

definition attribute_lines :: "pydict \<Rightarrow> string \<times> json \<Rightarrow> string list" where
  \<comment> \<open>The body of the loop of \<^verbatim>\<open>_get_attributes_text\<close> for one entry of the item.\<close>
  "attribute_lines ns kv =
     (case kv of (key, v) \<Rightarrow>
        if key \<in> set skip_props then []
        else
          (let short_key = (if CHR '':'' \<in> set key then shorten_uri ns key else key) in
           case v of
             JList (x # xs) \<Rightarrow>
               concat (map (\<lambda>val_item.
                  case val_item of
                    JObj ob \<Rightarrow> (case map_of ob ''@value'' of
                                 None \<Rightarrow> []
                               | Some w \<Rightarrow> [short_key @ ''='' @ truncate30 (py_str w)])
                  | JStr s \<Rightarrow> [short_key @ ''='' @ truncate30 s]
                  | _ \<Rightarrow> []) (take 3 (x # xs)))
           | JStr s \<Rightarrow> [short_key @ ''='' @ truncate30 s]
           | _ \<Rightarrow> []))"

definition get_attributes_text :: "viz \<Rightarrow> pydict \<Rightarrow> string list" where
  "get_attributes_text st item = concat (map (attribute_lines (namespaces st)) item)"

definition process_node :: "viz \<Rightarrow> pydict \<Rightarrow> py_error + viz" where
  "process_node st item =
     (let item_type = dict_get item ''@type'' JNull;
          item_id = dict_get item ''@id'' (JStr (''anon_'' @ str_nat (length (nodes st))))
      in case get_label item of
           Inl e \<Rightarrow> Inl e
         | Inr label0 \<Rightarrow>
             (let attributes = (if show_attributes st then get_attributes_text st item else []);
                  label = (if show_attributes st \<and> attributes \<noteq> []
                           then JStr (py_str label0 @ esc_n @ join esc_n (take 5 attributes))
                           else label0)
              in case table_get NODE_SHAPES item_type of
                   Inl e \<Rightarrow> Inl e
                 | Inr shape \<Rightarrow>
                     (case table_get NODE_COLORS item_type of
                        Inl e \<Rightarrow> Inl e
                      | Inr color \<Rightarrow>
                          (case dict_key item_id of
                             Inl e \<Rightarrow> Inl e
                           | Inr k \<Rightarrow>
                               Inr (st\<lparr>nodes := AList.update k
                                      \<lparr>n_label = label,
                                       n_shape = (case shape of None \<Rightarrow> ''ellipse'' | Some s \<Rightarrow> s),
                                       n_fillcolor = (case color of None \<Rightarrow> ''#FFFFFF'' | Some c \<Rightarrow> c),
                                       n_style = ''filled'',
                                       n_type = item_type\<rparr> (nodes st)\<rparr>)))))"

definition get_edge_endpoints :: "pydict \<Rightarrow> json \<Rightarrow> json \<times> json" where
  "get_edge_endpoints item relation_type =
     (if relation_type = JStr ''prov:Generation''
        then (dict_get item ''activity'' JNull, dict_get item ''entity'' JNull)
      else if relation_type = JStr ''prov:Usage''
        then (dict_get item ''activity'' JNull, dict_get item ''entity'' JNull)
      else if relation_type = JStr ''prov:Derivation''
        then (dict_get item ''usedEntity'' JNull, dict_get item ''generatedEntity'' JNull)
      else if relation_type = JStr ''prov:Association''
        then (dict_get item ''activity'' JNull, dict_get item ''agent'' JNull)
      else if relation_type = JStr ''prov:Attribution''
        then (dict_get item ''entity'' JNull, dict_get item ''agent'' JNull)
      else if relation_type = JStr ''prov:Communication''
        then (dict_get item ''informant'' JNull, dict_get item ''informed'' JNull)
      else if relation_type = JStr ''prov:Delegation''
        then (dict_get item ''responsible'' JNull, dict_get item ''delegate'' JNull)
      else if relation_type = JStr ''prov:Start''
        then (dict_get item ''trigger'' JNull, dict_get item ''activity'' JNull)
      else if relation_type = JStr ''prov:End''
        then (dict_get item ''trigger'' JNull, dict_get item ''activity'' JNull)
      else if relation_type = JStr ''prov:Invalidation''
        then (dict_get item ''activity'' JNull, dict_get item ''entity'' JNull)
      else if relation_type = JStr ''prov:Influence''
        then (dict_get item ''influencer'' JNull, dict_get item ''influencee'' JNull)
      else if relation_type = JStr ''provext:Specialization''
        then (dict_get item ''generalEntity'' JNull, dict_get item ''specificEntity'' JNull)
      else if relation_type = JStr ''provext:Alternate''
        then (dict_get item ''alternate1'' JNull, dict_get item ''alternate2'' JNull)
      else if relation_type = JStr ''provext:Membership''
        then (dict_get item ''collection'' JNull, dict_get item ''entity'' JNull)
      else (JNull, JNull))"

definition role_info :: "pydict \<Rightarrow> string list" where
  \<comment> \<open>The \<^verbatim>\<open>prov:role\<close> part of \<^verbatim>\<open>extra_info\<close>.\<close>
  "role_info item =
     (case map_of item ''prov:role'' of
        Some (JList (role_val # rest)) \<Rightarrow>
          (case role_val of
             JObj ob \<Rightarrow> (case map_of ob ''@value'' of
                          None \<Rightarrow> [] | Some v \<Rightarrow> [''role:'' @ py_str v])
           | _ \<Rightarrow> [])
      | _ \<Rightarrow> [])"

definition time_info :: "pydict \<Rightarrow> py_error + string list" where
  \<comment> \<open>The time part of \<^verbatim>\<open>extra_info\<close>.\<close>
  "time_info item =
     (if map_of item ''time'' \<noteq> None \<or> map_of item ''prov:time'' \<noteq> None then
        (case dict_get item ''time'' (dict_get item ''prov:time'' JNull) of
           JStr time_val \<Rightarrow>
             (if CHR ''T'' \<in> set time_val then
                (case py_index (split_char CHR ''T'' time_val) 1 of
                   Inl e \<Rightarrow> Inl e
                 | Inr after \<Rightarrow>
                     (case py_index (split_char CHR ''.'' after) 0 of
                        Inl e \<Rightarrow> Inl e
                      | Inr time_part \<Rightarrow> Inr [''@'' @ time_part]))
              else Inr [])
         | _ \<Rightarrow> Inr [])
      else Inr [])"

definition relation_label :: "(string \<times> string) list \<Rightarrow> json \<Rightarrow> pydict \<Rightarrow> py_error + string" where
  \<comment> \<open>The block under \<^verbatim>\<open>if self.show_relation_labels\<close>. The default of
      \<^verbatim>\<open>edge_style.get('label', ...)\<close> is computed before the lookup, so it can raise.\<close>
  "relation_label edge_style relation_type item =
     (case (case relation_type of
              JStr t \<Rightarrow> py_index (split_char CHR '':'' t) 1
            | _ \<Rightarrow> Inl AttributeError) of
        Inl e \<Rightarrow> Inl e
      | Inr dflt \<Rightarrow>
          (let label = (case map_of edge_style ''label'' of None \<Rightarrow> dflt | Some l \<Rightarrow> l) in
           case time_info item of
             Inl e \<Rightarrow> Inl e
           | Inr ti \<Rightarrow>
               (let extra_info = role_info item @ ti in
                Inr (if extra_info \<noteq> []
                     then label @ esc_n @ ''('' @ join '', '' extra_info @ '')''
                     else label))))"

definition process_simple_relation :: "viz \<Rightarrow> pydict \<Rightarrow> py_error + viz" where
  "process_simple_relation st item =
     (let relation_type = dict_get item ''@type'' JNull in
      case table_get EDGE_STYLES relation_type of
        Inl e \<Rightarrow> Inl e
      | Inr found \<Rightarrow>
          (let edge_style = (case found of None \<Rightarrow> [] | Some es \<Rightarrow> es);
               (source, target) = get_edge_endpoints item relation_type
           in if \<not> truthy source \<or> \<not> truthy target then Inr st
              else
                (let e = \<lparr>e_source = source, e_target = target,
                          e_style = (case map_of edge_style ''style'' of
                                       None \<Rightarrow> ''solid'' | Some s \<Rightarrow> s),
                          e_dir = (case map_of edge_style ''dir'' of
                                     None \<Rightarrow> ''forward'' | Some d \<Rightarrow> d),
                          e_arrowhead = (case map_of edge_style ''arrowhead'' of
                                           None \<Rightarrow> ''normal'' | Some a \<Rightarrow> a),
                          e_color = map_of edge_style ''color'',
                          e_label = None\<rparr>
                 in if show_relation_labels st then
                      (case relation_label edge_style relation_type item of
                         Inl err \<Rightarrow> Inl err
                       | Inr label \<Rightarrow>
                           Inr (st\<lparr>edges := edges st @ [e\<lparr>e_label := Some label\<rparr>]\<rparr>))
                    else Inr (st\<lparr>edges := edges st @ [e]\<rparr>))))"

definition process_relation :: "viz \<Rightarrow> pydict \<Rightarrow> py_error + viz" where
  "process_relation st item = process_simple_relation st item"

definition process_item :: "viz \<Rightarrow> json \<Rightarrow> py_error + viz" where
  \<comment> \<open>The body of the loop over \<^verbatim>\<open>@graph\<close> in \<^verbatim>\<open>convert\<close>.\<close>
  "process_item st it =
     (case it of
        JObj item \<Rightarrow>
          (let item_type = dict_get item ''@type'' JNull in
           case table_get NODE_SHAPES item_type of
             Inl e \<Rightarrow> Inl e
           | Inr (Some shape) \<Rightarrow> process_node st item
           | Inr None \<Rightarrow>
               (if truthy item_type then
                  (case item_type of
                     JStr t \<Rightarrow> (if startswith t ''prov:'' \<or> startswith t ''provext:''
                                then process_relation st item else Inr st)
                   | _ \<Rightarrow> Inl AttributeError)
                else Inr st))
      | _ \<Rightarrow> Inl AttributeError)"

definition make_safe_id :: "json \<Rightarrow> py_error + string" where
  "make_safe_id node_id =
     (case node_id of
        JStr s \<Rightarrow>
          (let safe_id = replace_char CHR ''-'' CHR ''_''
                           (replace_char CHR ''/'' CHR ''_'' (replace_char CHR '':'' CHR ''_'' s));
               safe_id = replace_char CHR ''#'' CHR ''_'' (replace_char CHR ''.'' CHR ''_'' safe_id)
           in if \<not> isalnum (remove_char CHR ''_'' safe_id) then Inr (dq @ s @ dq)
              else Inr safe_id)
      | _ \<Rightarrow> Inl AttributeError)"

definition node_statement :: "json \<times> node \<Rightarrow> py_error + string" where
  \<comment> \<open>The body of the loop over \<^verbatim>\<open>self.nodes.items()\<close> in \<^verbatim>\<open>_generate_dot\<close>.\<close>
  "node_statement kv =
     (case kv of (node_id, node_props) \<Rightarrow>
        (let props = [''label='' @ dq @ py_str (n_label node_props) @ dq,
                      ''shape='' @ dq @ n_shape node_props @ dq,
                      ''fillcolor='' @ dq @ n_fillcolor node_props @ dq,
                      ''style='' @ dq @ n_style node_props @ dq,
                      ''type='' @ dq @ py_str (n_type node_props) @ dq];
             props_str = join '', '' props
         in case make_safe_id node_id of
              Inl e \<Rightarrow> Inl e
            | Inr safe_id \<Rightarrow> Inr (''  '' @ safe_id @ '' ['' @ props_str @ ''];'')))"

definition edge_statement :: "edge \<Rightarrow> py_error + string" where
  \<comment> \<open>The body of the loop over \<^verbatim>\<open>self.edges\<close> in \<^verbatim>\<open>_generate_dot\<close>.\<close>
  "edge_statement e =
     (case make_safe_id (e_source e) of
        Inl err \<Rightarrow> Inl err
      | Inr source \<Rightarrow>
          (case make_safe_id (e_target e) of
             Inl err \<Rightarrow> Inl err
           | Inr target \<Rightarrow>
               (let props =
                      (case e_label e of
                         Some l \<Rightarrow> (if l \<noteq> [] then [''label='' @ dq @ l @ dq] else [])
                       | None \<Rightarrow> [])
                      @ [''style='' @ e_style e]
                      @ [''dir='' @ e_dir e]
                      @ (case e_color e of Some c \<Rightarrow> [''color='' @ dq @ c @ dq] | None \<Rightarrow> [])
                      @ [''arrowhead='' @ e_arrowhead e];
                    props_str = join '', '' props
                in if props_str \<noteq> []
                   then Inr (''  '' @ source @ '' -> '' @ target @ '' ['' @ props_str @ ''];'')
                   else Inr (''  '' @ source @ '' -> '' @ target @ '';''))))"

definition dot_lines :: "viz \<Rightarrow> py_error + string list" where
  \<comment> \<open>The list \<^verbatim>\<open>lines\<close> that \<^verbatim>\<open>_generate_dot\<close> builds.\<close>
  "dot_lines st =
     (case map_each node_statement (nodes st) of
        Inl e \<Rightarrow> Inl e
      | Inr node_lines \<Rightarrow>
          (case map_each edge_statement (edges st) of
             Inl e \<Rightarrow> Inl e
           | Inr edge_lines \<Rightarrow>
               Inr ([''digraph PROV {'', ''  rankdir='' @ direction st @ '';'',
                     ''  node [fontname='' @ dq @ ''Helvetica'' @ dq @ ''];'',
                     ''  edge [fontname='' @ dq @ ''Helvetica'' @ dq @ ''];'', '''']
                    @ node_lines @ [''''] @ edge_lines @ [''}''])))"

definition generate_dot :: "viz \<Rightarrow> py_error + string" where
  "generate_dot st =
     (case dot_lines st of Inl e \<Rightarrow> Inl e | Inr lines \<Rightarrow> Inr (join [CHR 0x0A] lines))"

definition build :: "viz \<Rightarrow> json \<Rightarrow> py_error + viz" where
  \<comment> \<open>\<^verbatim>\<open>convert\<close> up to the call of \<^verbatim>\<open>_generate_dot\<close>.\<close>
  "build st prov_jsonld =
     (case prov_jsonld of
        JObj doc \<Rightarrow>
          (case py_iter (dict_get doc ''@context'' (JList [])) of
             Inl e \<Rightarrow> Inl e
           | Inr context \<Rightarrow>
               (let st1 = extract_namespaces st context in
                case py_iter (dict_get doc ''@graph'' (JList [])) of
                  Inl e \<Rightarrow> Inl e
                | Inr graph \<Rightarrow> for_each process_item st1 graph))
      | _ \<Rightarrow> Inl AttributeError)"

definition convert :: "viz \<Rightarrow> json \<Rightarrow> py_error + string" where
  "convert st prov_jsonld =
     (case build st prov_jsonld of Inl e \<Rightarrow> Inl e | Inr st' \<Rightarrow> generate_dot st')"

section \<open>prov2ld.py: class ProvJsonToJsonldConverter\<close>

text \<open>
  Operations of this class that share a name with one of the class above carry the
  suffix \<open>_ld\<close>.
\<close>

fun py_contains :: "json \<Rightarrow> string \<Rightarrow> py_error + bool" where
  \<comment> \<open>\<^verbatim>\<open>k in x\<close> for a string \<open>k\<close>.\<close>
  "py_contains (JObj kv) k = Inr (map_of kv k \<noteq> None)"
| "py_contains (JList xs) k = Inr (JStr k \<in> set xs)"
| "py_contains (JStr s) k = Inr (py_in_str k s)"
| "py_contains v k = Inl TypeError"

fun py_getitem :: "json \<Rightarrow> string \<Rightarrow> py_error + json" where
  \<comment> \<open>\<^verbatim>\<open>x[k]\<close> for a string \<open>k\<close>.\<close>
  "py_getitem (JObj kv) k = (case map_of kv k of None \<Rightarrow> Inl KeyError | Some v \<Rightarrow> Inr v)"
| "py_getitem v k = Inl TypeError"

fun py_items :: "json \<Rightarrow> py_error + pydict" where
  \<comment> \<open>\<^verbatim>\<open>x.items()\<close>\<close>
  "py_items (JObj kv) = Inr kv"
| "py_items v = Inl AttributeError"

fun py_dict :: "json \<Rightarrow> py_error + pydict" where
  \<comment> \<open>\<^verbatim>\<open>dict(x)\<close>\<close>
  "py_dict (JObj kv) = Inr kv"
| "py_dict (JStr s) = (if s = [] then Inr [] else Inl ValueError)"
| "py_dict (JList xs) = (if xs = [] then Inr [] else Inl Unmodelled)"
| "py_dict v = Inl TypeError"

definition PROV_JSONLD_CONTEXT :: string where
  "PROV_JSONLD_CONTEXT = ''https://openprovenance.org/prov-jsonld/context.json''"

definition TYPE_MAPPINGS :: "(string \<times> string) list" where
  "TYPE_MAPPINGS =
     [(''entity'', ''prov:Entity''),
      (''activity'', ''prov:Activity''),
      (''agent'', ''prov:Agent''),
      (''wasGeneratedBy'', ''prov:Generation''),
      (''used'', ''prov:Usage''),
      (''wasInformedBy'', ''prov:Communication''),
      (''wasStartedBy'', ''prov:Start''),
      (''wasEndedBy'', ''prov:End''),
      (''wasInvalidatedBy'', ''prov:Invalidation''),
      (''wasDerivedFrom'', ''prov:Derivation''),
      (''wasAttributedTo'', ''prov:Attribution''),
      (''wasAssociatedWith'', ''prov:Association''),
      (''actedOnBehalfOf'', ''prov:Delegation''),
      (''wasInfluencedBy'', ''prov:Influence''),
      (''specializationOf'', ''provext:Specialization''),
      (''alternateOf'', ''provext:Alternate''),
      (''hadMember'', ''provext:Membership'')]"

definition RELATION_PROPERTIES :: "(string \<times> (string \<times> string) list) list" where
  "RELATION_PROPERTIES =
     [(''wasGeneratedBy'', [(''prov:entity'', ''entity''), (''prov:activity'', ''activity''),
         (''prov:time'', ''time'')]),
      (''used'', [(''prov:entity'', ''entity''), (''prov:activity'', ''activity''),
         (''prov:time'', ''time'')]),
      (''wasInformedBy'', [(''prov:informed'', ''informed''),
         (''prov:informant'', ''informant'')]),
      (''wasStartedBy'', [(''prov:activity'', ''activity''), (''prov:trigger'', ''trigger''),
         (''prov:starter'', ''starter''), (''prov:time'', ''time'')]),
      (''wasEndedBy'', [(''prov:activity'', ''activity''), (''prov:trigger'', ''trigger''),
         (''prov:ender'', ''ender''), (''prov:time'', ''time'')]),
      (''wasInvalidatedBy'', [(''prov:entity'', ''entity''), (''prov:activity'', ''activity''),
         (''prov:time'', ''time'')]),
      (''wasDerivedFrom'', [(''prov:generatedEntity'', ''generatedEntity''),
         (''prov:usedEntity'', ''usedEntity''), (''prov:activity'', ''activity''),
         (''prov:generation'', ''generation''), (''prov:usage'', ''usage'')]),
      (''wasAttributedTo'', [(''prov:entity'', ''entity''), (''prov:agent'', ''agent'')]),
      (''wasAssociatedWith'', [(''prov:activity'', ''activity''), (''prov:agent'', ''agent''),
         (''prov:plan'', ''plan'')]),
      (''actedOnBehalfOf'', [(''prov:delegate'', ''delegate''),
         (''prov:responsible'', ''responsible''), (''prov:activity'', ''activity'')]),
      (''wasInfluencedBy'', [(''prov:influencee'', ''influencee''),
         (''prov:influencer'', ''influencer'')]),
      (''specializationOf'', [(''prov:specificEntity'', ''specificEntity''),
         (''prov:generalEntity'', ''generalEntity'')]),
      (''alternateOf'', [(''prov:alternate1'', ''alternate1''),
         (''prov:alternate2'', ''alternate2'')]),
      (''hadMember'', [(''prov:collection'', ''collection''), (''prov:entity'', ''entity'')])]"

definition convert_value_item :: "json \<Rightarrow> json" where
  \<comment> \<open>The body of the loop of \<^verbatim>\<open>_convert_value\<close>: what is appended for one element.\<close>
  "convert_value_item item =
     (case item of
        JObj d \<Rightarrow>
          (if map_of d ''$'' \<noteq> None \<or> map_of d ''type'' \<noteq> None then
             (let converted = [];
                  converted = (case map_of d ''$'' of
                                 Some v \<Rightarrow> AList.update ''@value'' v converted
                               | None \<Rightarrow> converted);
                  converted = (case map_of d ''type'' of
                                 Some v \<Rightarrow> AList.update ''@type'' v converted
                               | None \<Rightarrow> converted);
                  converted = (case map_of d ''lang'' of
                                 Some v \<Rightarrow> AList.update ''@language'' v converted
                               | None \<Rightarrow> converted)
              in JObj converted)
           else item)
      | _ \<Rightarrow> JObj [(''@value'', JStr (py_str item))])"

definition convert_value :: "json \<Rightarrow> json list" where
  "convert_value v = map convert_value_item (case v of JList xs \<Rightarrow> xs | _ \<Rightarrow> [v])"

definition convert_label_item :: "json \<Rightarrow> json" where
  \<comment> \<open>The body of the loop of \<^verbatim>\<open>_convert_label\<close>.\<close>
  "convert_label_item item =
     (case item of
        JObj d \<Rightarrow>
          (let label_obj = [(''@value'', dict_get d ''$'' (JStr []))];
               label_obj = (case map_of d ''lang'' of
                              Some v \<Rightarrow> AList.update ''@language'' v label_obj
                            | None \<Rightarrow> label_obj)
           in JObj label_obj)
      | _ \<Rightarrow> JObj [(''@value'', JStr (py_str item))])"

definition convert_label :: "json \<Rightarrow> json list" where
  "convert_label v = map convert_label_item (case v of JList xs \<Rightarrow> xs | _ \<Rightarrow> [v])"

definition element_step :: "string \<times> json \<Rightarrow> pydict \<Rightarrow> pydict" where
  \<comment> \<open>The body of the loop of \<^verbatim>\<open>_convert_element\<close>.\<close>
  "element_step kv obj =
     (case kv of (key, v) \<Rightarrow>
        if key = ''prov:type'' then AList.update ''prov:type'' (JList (convert_value v)) obj
        else if key = ''prov:label'' then AList.update ''prov:label'' (JList (convert_label v)) obj
        else if key = ''prov:location''
          then AList.update ''prov:location'' (JList (convert_value v)) obj
        else if key = ''prov:value'' then AList.update ''prov:value'' (JList (convert_value v)) obj
        else if startswith key ''prov:'' then AList.update key (JList (convert_value v)) obj
        else if CHR '':'' \<in> set key then AList.update key (JList (convert_value v)) obj
        else obj)"

definition convert_element :: "string \<Rightarrow> json \<Rightarrow> string \<Rightarrow> py_error + pydict" where
  "convert_element item_id item_data type_name =
     (case py_items item_data of
        Inl e \<Rightarrow> Inl e
      | Inr entries \<Rightarrow>
          (let obj = [(''@type'', JStr type_name), (''@id'', JStr item_id)];
               obj = fold element_step entries obj;
               obj = (if type_name = ''prov:Activity'' then
                        (let obj = (case map_of entries ''prov:startTime'' of
                                      Some t \<Rightarrow> AList.update ''startTime'' t obj | None \<Rightarrow> obj)
                         in (case map_of entries ''prov:endTime'' of
                               Some t \<Rightarrow> AList.update ''endTime'' t obj | None \<Rightarrow> obj))
                      else obj)
           in Inr obj))"

definition property_step :: "json \<Rightarrow> pydict \<Rightarrow> string \<times> string \<Rightarrow> py_error + pydict" where
  \<comment> \<open>The body of the loop over \<^verbatim>\<open>property_map.items()\<close> in \<^verbatim>\<open>_convert_relation\<close>.\<close>
  "property_step item_data obj kj =
     (case kj of (prov_key, jsonld_key) \<Rightarrow>
        (case py_contains item_data prov_key of
           Inl e \<Rightarrow> Inl e
         | Inr present \<Rightarrow>
             (if present then
                (case py_getitem item_data prov_key of
                   Inl e \<Rightarrow> Inl e
                 | Inr v \<Rightarrow> Inr (AList.update jsonld_key v obj))
              else Inr obj)))"

definition relation_step :: "(string \<times> string) list \<Rightarrow> string \<times> json \<Rightarrow> pydict \<Rightarrow> pydict" where
  \<comment> \<open>The body of the loop over \<^verbatim>\<open>item_data.items()\<close> in \<^verbatim>\<open>_convert_relation\<close>.\<close>
  "relation_step property_map kv obj =
     (case kv of (key, v) \<Rightarrow>
        if map_of property_map key \<noteq> None then obj
        else if key = ''prov:type'' then AList.update ''prov:type'' (JList (convert_value v)) obj
        else if key = ''prov:label'' then AList.update ''prov:label'' (JList (convert_label v)) obj
        else if key = ''prov:location''
          then AList.update ''prov:location'' (JList (convert_value v)) obj
        else if key = ''prov:role'' then AList.update ''prov:role'' (JList (convert_value v)) obj
        else if startswith key ''prov:'' then AList.update key (JList (convert_value v)) obj
        else if CHR '':'' \<in> set key then AList.update key (JList (convert_value v)) obj
        else obj)"

definition convert_relation :: "string \<Rightarrow> json \<Rightarrow> string \<Rightarrow> string \<Rightarrow> py_error + pydict" where
  "convert_relation item_id item_data type_name category =
     (let obj = [(''@type'', JStr type_name)];
          obj = (if item_id \<noteq> [] \<and> \<not> startswith item_id ''_:''
                   then AList.update ''@id'' (JStr item_id) obj
                 else if item_id \<noteq> [] \<and> startswith item_id ''_:''
                   then AList.update ''@id'' (JStr item_id) obj
                 else obj);
          property_map = (case map_of RELATION_PROPERTIES category of
                            None \<Rightarrow> [] | Some m \<Rightarrow> m)
      in case for_each (property_step item_data) obj property_map of
           Inl e \<Rightarrow> Inl e
         | Inr obj \<Rightarrow>
             (case py_items item_data of
                Inl e \<Rightarrow> Inl e
              | Inr entries \<Rightarrow> Inr (fold (relation_step property_map) entries obj)))"

definition convert_item :: "string \<Rightarrow> json \<Rightarrow> string \<Rightarrow> string \<Rightarrow> py_error + pydict" where
  "convert_item item_id item_data type_name category =
     (if map_of RELATION_PROPERTIES category \<noteq> None
      then convert_relation item_id item_data type_name category
      else convert_element item_id item_data type_name)"

definition convert_category :: "string \<Rightarrow> json \<Rightarrow> string \<Rightarrow> py_error + json list" where
  "convert_category category items type_name =
     (case py_items items of
        Inl e \<Rightarrow> Inl e
      | Inr entries \<Rightarrow>
          map_each (\<lambda>(item_id, item_data).
             case convert_item item_id item_data type_name category of
               Inl e \<Rightarrow> Inl e | Inr obj \<Rightarrow> Inr (JObj obj)) entries)"

definition category_step :: "json \<Rightarrow> json list \<Rightarrow> string \<times> string \<Rightarrow> py_error + json list" where
  \<comment> \<open>The body of the loop over \<^verbatim>\<open>TYPE_MAPPINGS.items()\<close> in \<^verbatim>\<open>convert\<close> and in
      \<^verbatim>\<open>_convert_bundle\<close>.\<close>
  "category_step data graph ct =
     (case ct of (category, type_name) \<Rightarrow>
        (case py_contains data category of
           Inl e \<Rightarrow> Inl e
         | Inr present \<Rightarrow>
             (if present then
                (case py_getitem data category of
                   Inl e \<Rightarrow> Inl e
                 | Inr items \<Rightarrow>
                     (case convert_category category items type_name of
                        Inl e \<Rightarrow> Inl e
                      | Inr statements \<Rightarrow> Inr (graph @ statements)))
              else Inr graph)))"

definition prefix_namespaces :: "json \<Rightarrow> py_error + pydict" where
  \<comment> \<open>\<^verbatim>\<open>_extract_namespaces\<close>, and the same lines at the start of \<^verbatim>\<open>_convert_bundle\<close>.\<close>
  "prefix_namespaces data =
     (case py_contains data ''prefix'' of
        Inl e \<Rightarrow> Inl e
      | Inr present \<Rightarrow>
          (if present then
             (case py_getitem data ''prefix'' of Inl e \<Rightarrow> Inl e | Inr p \<Rightarrow> py_dict p)
           else Inr []))"

definition build_context :: "pydict \<Rightarrow> json list" where
  "build_context ns = (if ns \<noteq> [] then [JObj ns] else []) @ [JStr PROV_JSONLD_CONTEXT]"

definition convert_bundle :: "string \<Rightarrow> json \<Rightarrow> py_error + json" where
  "convert_bundle bundle_id bundle_data =
     (case prefix_namespaces bundle_data of
        Inl e \<Rightarrow> Inl e
      | Inr bundle_namespaces \<Rightarrow>
          (let bundle_context = build_context bundle_namespaces in
           case for_each (category_step bundle_data) [] TYPE_MAPPINGS of
             Inl e \<Rightarrow> Inl e
           | Inr graph \<Rightarrow>
               Inr (JObj [(''@type'', JStr ''prov:Bundle''), (''@id'', JStr bundle_id),
                          (''@context'', JList bundle_context), (''@graph'', JList graph)])))"

definition convert_ld :: "json \<Rightarrow> py_error + json" where
  "convert_ld prov_json =
     (case prefix_namespaces prov_json of
        Inl e \<Rightarrow> Inl e
      | Inr ns \<Rightarrow>
          (let context = build_context ns in
           case py_contains prov_json ''bundle'' of
             Inl e \<Rightarrow> Inl e
           | Inr has_bundle \<Rightarrow>
               (case (if has_bundle then
                        (case py_getitem prov_json ''bundle'' of
                           Inl e \<Rightarrow> Inl e
                         | Inr b \<Rightarrow>
                             (case py_items b of
                                Inl e \<Rightarrow> Inl e
                              | Inr bundles \<Rightarrow>
                                  map_each (\<lambda>(bundle_id, bundle_content).
                                     convert_bundle bundle_id bundle_content) bundles))
                      else Inr []) of
                  Inl e \<Rightarrow> Inl e
                | Inr graph \<Rightarrow>
                    (case for_each (category_step prov_json) graph TYPE_MAPPINGS of
                       Inl e \<Rightarrow> Inl e
                     | Inr graph \<Rightarrow>
                         Inr (JObj [(''@context'', JList context),
                                    (''@graph'', JList graph)])))))"

section \<open>Notions used to state the properties\<close>

definition sanitized :: "string \<Rightarrow> string" where
  \<comment> \<open>Each occurrence of \<^verbatim>\<open>: / - . #\<close> replaced by an underscore.\<close>
  "sanitized s =
     map (\<lambda>c. if c \<in> {CHR '':'', CHR ''/'', CHR ''-'', CHR ''.'', CHR ''#''}
              then CHR ''_'' else c) s"

definition ENDPOINT_ROLES :: "(string \<times> string \<times> string) list" where
  \<comment> \<open>The two endpoint role properties of each relation type, read off
      \<^verbatim>\<open>_get_edge_endpoints\<close>: source role, then target role.\<close>
  "ENDPOINT_ROLES =
     [(''prov:Generation'', ''activity'', ''entity''),
      (''prov:Usage'', ''activity'', ''entity''),
      (''prov:Derivation'', ''usedEntity'', ''generatedEntity''),
      (''prov:Association'', ''activity'', ''agent''),
      (''prov:Attribution'', ''entity'', ''agent''),
      (''prov:Communication'', ''informant'', ''informed''),
      (''prov:Delegation'', ''responsible'', ''delegate''),
      (''prov:Start'', ''trigger'', ''activity''),
      (''prov:End'', ''trigger'', ''activity''),
      (''prov:Invalidation'', ''activity'', ''entity''),
      (''prov:Influence'', ''influencer'', ''influencee''),
      (''provext:Specialization'', ''generalEntity'', ''specificEntity''),
      (''provext:Alternate'', ''alternate1'', ''alternate2''),
      (''provext:Membership'', ''collection'', ''entity'')]"

definition time_part :: "string \<Rightarrow> string" where
  \<comment> \<open>The text after the first \<^verbatim>\<open>T\<close>, up to the next \<^verbatim>\<open>T\<close> or the first dot after it.\<close>
  "time_part time_val =
     takeWhile (\<lambda>c. c \<noteq> CHR ''.'')
       (takeWhile (\<lambda>c. c \<noteq> CHR ''T'') (tl (dropWhile (\<lambda>c. c \<noteq> CHR ''T'') time_val)))"

definition extra_info :: "pydict \<Rightarrow> string list" where
  \<comment> \<open>The annotations of an edge label: the role, then the time.\<close>
  "extra_info item =
     role_info item @
     (if map_of item ''time'' \<noteq> None \<or> map_of item ''prov:time'' \<noteq> None then
        (case dict_get item ''time'' (dict_get item ''prov:time'' JNull) of
           JStr time_val \<Rightarrow>
             (if CHR ''T'' \<in> set time_val then [''@'' @ time_part time_val] else [])
         | _ \<Rightarrow> [])
      else [])"

definition registry_label :: "string \<Rightarrow> string option" where
  \<comment> \<open>The human label that \<open>EDGE_STYLES\<close> gives a relation type.\<close>
  "registry_label t =
     (case map_of EDGE_STYLES t of None \<Rightarrow> None | Some es \<Rightarrow> map_of es ''label'')"

definition label_newline_joined :: "string \<Rightarrow> string \<Rightarrow> string list \<Rightarrow> string" where
  \<comment> \<open>An edge label as the specification words it: the suffixes joined to the label, each
      after a newline.\<close>
  "label_newline_joined newline base suffixes = join newline (base # suffixes)"

definition plain_prefix :: "string \<Rightarrow> bool" where
  \<comment> \<open>A prefix name that is neither \<^verbatim>\<open>http\<close> nor \<^verbatim>\<open>https\<close> and does not itself begin
      with \<^verbatim>\<open>http://\<close> or \<^verbatim>\<open>https://\<close>.\<close>
  "plain_prefix p =
     (p \<noteq> ''http'' \<and> p \<noteq> ''https'' \<and> \<not> startswith p ''http://'' \<and> \<not> startswith p ''https://'')"

definition label_priority :: "(string \<times> bool) list" where
  \<comment> \<open>The label properties in the order of their priority, each with whether a first
      element that is a plain string counts as a value.\<close>
  "label_priority =
     [(''prov:label'', False), (''rdfs:label'', True), (''foaf:name'', True),
      (''dcterms:title'', True), (''name'', True), (''title'', True)]"

definition property_label :: "pydict \<Rightarrow> string \<times> bool \<Rightarrow> json option" where
  \<comment> \<open>The value that one label property of the item yields, if any.\<close>
  "property_label item pa =
     (case pa of (p, allow_str) \<Rightarrow>
        (case map_of item p of None \<Rightarrow> None | Some values \<Rightarrow> value_object_label allow_str values))"

fun first_some :: "'a option list \<Rightarrow> 'a option" where
  "first_some [] = None"
| "first_some (None # xs) = first_some xs"
| "first_some (Some v # xs) = Some v"

definition strip_namespace :: "string \<Rightarrow> string" where
  \<comment> \<open>The identifier without its namespace prefix: what follows the first colon.\<close>
  "strip_namespace s =
     (if CHR '':'' \<in> set s then tl (dropWhile (\<lambda>c. c \<noteq> CHR '':'') s) else s)"

definition only_categories :: "pydict \<Rightarrow> string list \<Rightarrow> bool" where
  \<comment> \<open>The document has no \<^verbatim>\<open>bundle\<close> and no category besides the listed ones.\<close>
  "only_categories doc present =
     list_all (\<lambda>c. c \<in> set present \<or> map_of doc c = None) (''bundle'' # map fst TYPE_MAPPINGS)"

definition dot_header :: "viz \<Rightarrow> string list" where
  \<comment> \<open>The five lines that open the DOT text.\<close>
  "dot_header st =
     [''digraph PROV {'', ''  rankdir='' @ direction st @ '';'',
      ''  node [fontname='' @ dq @ ''Helvetica'' @ dq @ ''];'',
      ''  edge [fontname='' @ dq @ ''Helvetica'' @ dq @ ''];'', '''']"

definition anon_id :: "(json \<times> node) list \<Rightarrow> string" where
  \<comment> \<open>The synthetic identifier for a node without \<^verbatim>\<open>@id\<close>, given the node table.\<close>
  "anon_id ns = ''anon_'' @ str_nat (length ns)"

definition word_char :: "char \<Rightarrow> bool" where
  \<comment> \<open>A character of the class \<^verbatim>\<open>[A-Za-z0-9_]\<close>.\<close>
  "word_char c =
     (c \<in> set ''ABCDEFGHIJKLMNOPQRSTUVWXYZabcdefghijklmnopqrstuvwxyz0123456789_'')"

definition claimed_safe_id :: "string \<Rightarrow> string" where
  \<comment> \<open>The identifier emitted as the specification words it: the sanitized identifier when
      it is composed solely of characters of \<^verbatim>\<open>[A-Za-z0-9_]\<close>, the original between double
      quotes otherwise.\<close>
  "claimed_safe_id s =
     (if list_all word_char (sanitized s) then sanitized s else dq @ s @ dq)"

section \<open>Properties\<close>

subsection \<open>Identifiers in the DOT text\<close>

lemma replace_chain_sanitized:
  "replace_char CHR ''#'' CHR ''_'' (replace_char CHR ''.'' CHR ''_''
     (replace_char CHR ''-'' CHR ''_'' (replace_char CHR ''/'' CHR ''_''
        (replace_char CHR '':'' CHR ''_'' s)))) = sanitized s"
  by (induction s) (auto simp: replace_char_def sanitized_def)

lemma isalnum_remove_underscore:
  "isalnum (remove_char CHR ''_'' xs) \<longleftrightarrow>
     list_all (\<lambda>c. alnum_char c \<or> c = CHR ''_'') xs \<and> (\<exists>c\<in>set xs. c \<noteq> CHR ''_'')"
  by (induction xs) (auto simp: isalnum_def remove_char_def list_all_iff filter_empty_conv)

text \<open>
  Claim C8, as amended. For every identifier \<open>s\<close>, \<^verbatim>\<open>_make_safe_id\<close> replaces each of
  \<^verbatim>\<open>: / - . #\<close> by an underscore. The sanitized string is returned bare exactly when it
  is made only of underscores and of characters that \<^verbatim>\<open>str.isalnum\<close> accepts, and has at
  least one character that is not an underscore; otherwise the original identifier is
  returned between double quotes.
\<close>

theorem make_safe_id_sanitizes:
  "make_safe_id (JStr s) =
     Inr (if list_all (\<lambda>c. alnum_char c \<or> c = CHR ''_'') (sanitized s)
             \<and> (\<exists>c\<in>set (sanitized s). c \<noteq> CHR ''_'')
          then sanitized s else dq @ s @ dq)"
  by (auto simp: make_safe_id_def Let_def replace_chain_sanitized isalnum_remove_underscore)

text \<open>
  The identifier \<^verbatim>\<open>a b\<close> is quoted, and so are \<^verbatim>\<open>_\<close>, \<^verbatim>\<open>:\<close> and the empty identifier;
  \<^verbatim>\<open>ex:e-1.x#y/z\<close> is sanitized and bare.
\<close>

theorem make_safe_id_sanitizes_witness:
  "make_safe_id (JStr ''a b'') = Inr (dq @ ''a b'' @ dq) \<and>
   make_safe_id (JStr ''ex:e-1.x#y/z'') = Inr ''ex_e_1_x_y_z'' \<and>
   make_safe_id (JStr ''_'') = Inr (dq @ ''_'' @ dq) \<and>
   make_safe_id (JStr '':'') = Inr (dq @ '':'' @ dq) \<and>
   make_safe_id (JStr []) = Inr (dq @ dq)"
  using make_safe_id_sanitizes [of "''a b''"] make_safe_id_sanitizes [of "''ex:e-1.x#y/z''"]
    make_safe_id_sanitizes [of "''_''"] make_safe_id_sanitizes [of "'':''"]
    make_safe_id_sanitizes [of "[]"]
  by (simp add: sanitized_def alnum_char_def)

text \<open>
  Claim C8 as stated fails. The identifier \<^verbatim>\<open>:\<close> sanitizes to \<^verbatim>\<open>_\<close>, which is composed
  solely of alphanumerics and underscores, and yet the original is returned quoted. The
  identifier made of the one letter with code point 233 (e with an acute accent) is not
  composed of characters of \<^verbatim>\<open>[A-Za-z0-9_]\<close>, and yet it is returned bare.
\<close>

theorem make_safe_id_not_as_claimed:
  "make_safe_id (JStr '':'') = Inr (dq @ '':'' @ dq)
   \<and> claimed_safe_id '':'' = ''_''
   \<and> make_safe_id (JStr '':'') \<noteq> Inr (claimed_safe_id '':'')
   \<and> make_safe_id (JStr [CHR 0xE9]) = Inr [CHR 0xE9]
   \<and> claimed_safe_id [CHR 0xE9] = dq @ [CHR 0xE9] @ dq
   \<and> make_safe_id (JStr [CHR 0xE9]) \<noteq> Inr (claimed_safe_id [CHR 0xE9])"
  by (simp add: make_safe_id_def Let_def replace_char_def remove_char_def isalnum_def
      alnum_char_def claimed_safe_id_def sanitized_def word_char_def dq_def)

subsection \<open>Edges\<close>

lemma split_char_unfold:
  "split_char sep s = takeWhile (\<lambda>c. c \<noteq> sep) s #
     (if sep \<in> set s then split_char sep (tl (dropWhile (\<lambda>c. c \<noteq> sep) s)) else [])"
  by (induction s) (auto split: list.splits)

lemma split_char_not_Nil: "split_char sep s \<noteq> []"
  by (subst split_char_unfold) simp

lemma py_index_split_0:
  "py_index (split_char sep s) 0 = Inr (takeWhile (\<lambda>c. c \<noteq> sep) s)"
  by (subst split_char_unfold) (simp add: py_index_def)

lemma split_char_hd: "\<exists>rest. split_char sep s = takeWhile (\<lambda>c. c \<noteq> sep) s # rest"
  by (subst split_char_unfold) simp

lemma py_index_split_1:
  assumes "sep \<in> set s"
  shows "py_index (split_char sep s) (Suc 0) =
     Inr (takeWhile (\<lambda>c. c \<noteq> sep) (tl (dropWhile (\<lambda>c. c \<noteq> sep) s)))"
proof -
  obtain rest where "split_char sep (tl (dropWhile (\<lambda>c. c \<noteq> sep) s)) =
      takeWhile (\<lambda>c. c \<noteq> sep) (tl (dropWhile (\<lambda>c. c \<noteq> sep) s)) # rest"
    using split_char_hd by blast
  with assms show ?thesis
    by (subst split_char_unfold) (simp add: py_index_def)
qed

lemma time_info_eq:
  "time_info item =
     Inr (if map_of item ''time'' \<noteq> None \<or> map_of item ''prov:time'' \<noteq> None then
            (case dict_get item ''time'' (dict_get item ''prov:time'' JNull) of
               JStr time_val \<Rightarrow>
                 (if CHR ''T'' \<in> set time_val then [''@'' @ time_part time_val] else [])
             | _ \<Rightarrow> [])
          else [])"
  by (auto simp: time_info_def py_index_split_0 py_index_split_1 time_part_def split: json.splits)

lemma startswith_append: "startswith (p @ s) p"
  by (simp add: startswith_def)

lemma startswith_self: "startswith p p"
  by (simp add: startswith_def)

lemma relation_label_eq:
  assumes "map_of es ''label'' = Some l" and "CHR '':'' \<in> set t"
  shows "relation_label es (JStr t) item =
     Inr (if extra_info item = [] then l
          else l @ esc_n @ ''('' @ join '', '' (extra_info item) @ '')'')"
  using assms
  by (simp add: relation_label_def time_info_eq py_index_split_1 extra_info_def Let_def)

lemma relation_label_startswith:
  assumes "map_of es ''label'' = Some l" and "CHR '':'' \<in> set t"
  shows "\<exists>l'. relation_label es (JStr t) item = Inr l' \<and> startswith l' l"
  by (simp add: relation_label_eq [OF assms] startswith_append startswith_self)

text \<open>
  Claim C1. A graph item of type \<^verbatim>\<open>prov:Derivation\<close> with \<^verbatim>\<open>usedEntity\<close> \<open>e1\<close> and
  \<^verbatim>\<open>generatedEntity\<close> \<open>e2\<close> (non-empty strings) makes the loop body of \<^verbatim>\<open>convert\<close>
  append exactly one edge, with source \<open>e1\<close>, target \<open>e2\<close> and a label that begins with
  \<^verbatim>\<open>wasDerivedFrom\<close>.
\<close>

theorem derivation_edge:
  assumes "map_of item ''@type'' = Some (JStr ''prov:Derivation'')"
    and "map_of item ''usedEntity'' = Some (JStr e1)" and "e1 \<noteq> []"
    and "map_of item ''generatedEntity'' = Some (JStr e2)" and "e2 \<noteq> []"
    and "show_relation_labels st"
  shows "\<exists>l. process_item st (JObj item) =
              Inr (st\<lparr>edges := edges st @
                     [\<lparr>e_source = JStr e1, e_target = JStr e2, e_style = ''solid'',
                       e_dir = ''back'', e_arrowhead = ''normal'', e_color = None,
                       e_label = Some l\<rparr>]\<rparr>)
            \<and> startswith l ''wasDerivedFrom''"
proof -
  obtain l where l: "relation_label [(''label'', ''wasDerivedFrom''), (''style'', ''solid''), (''dir'', ''back'')]
         (JStr ''prov:Derivation'') item = Inr l" "startswith l ''wasDerivedFrom''"
    using relation_label_startswith [of "[(''label'', ''wasDerivedFrom''), (''style'', ''solid''), (''dir'', ''back'')]" "''wasDerivedFrom''" "''prov:Derivation''" item]
    by auto
  have p: "startswith ''prov:Derivation'' ''prov:''"
    by (simp add: startswith_def)
  have "process_item st (JObj item) =
              Inr (st\<lparr>edges := edges st @
                     [\<lparr>e_source = JStr e1, e_target = JStr e2, e_style = ''solid'',
                       e_dir = ''back'', e_arrowhead = ''normal'', e_color = None,
                       e_label = Some l\<rparr>]\<rparr>)"
    using assms l(1) p
    by (simp add: process_item_def process_relation_def process_simple_relation_def dict_get_def
        NODE_SHAPES_def EDGE_STYLES_def get_edge_endpoints_def Let_def)
  with l(2) show ?thesis by blast
qed

theorem derivation_edge_witness:
  "\<exists>l. process_item (init True ''LR'')
          (JObj [(''@type'', JStr ''prov:Derivation''), (''usedEntity'', JStr ''e1''),
                 (''generatedEntity'', JStr ''e2'')]) =
        Inr ((init True ''LR'')\<lparr>edges := 
                     [\<lparr>e_source = JStr ''e1'', e_target = JStr ''e2'', e_style = ''solid'',
                       e_dir = ''back'', e_arrowhead = ''normal'', e_color = None,
                       e_label = Some l\<rparr>]\<rparr>)
            \<and> startswith l ''wasDerivedFrom''"
  using derivation_edge [of "[(''@type'', JStr ''prov:Derivation''), (''usedEntity'', JStr ''e1''),
                 (''generatedEntity'', JStr ''e2'')]" "''e1''" "''e2''" "init True ''LR''"]
  by (simp add: init_def)

lemma endpoint_roles_endpoints:
  "map_of ENDPOINT_ROLES t = Some (a, b) \<Longrightarrow>
     get_edge_endpoints item (JStr t) = (dict_get item a JNull, dict_get item b JNull)"
  by (auto simp: ENDPOINT_ROLES_def get_edge_endpoints_def split: if_splits)

lemma endpoint_roles_dispatch:
  "map_of ENDPOINT_ROLES t = Some ab \<Longrightarrow>
     table_get NODE_SHAPES (JStr t) = Inr None \<and> t \<noteq> [] \<and> CHR '':'' \<in> set t
     \<and> (startswith t ''prov:'' \<or> startswith t ''provext:'')"
  by (auto simp: ENDPOINT_ROLES_def NODE_SHAPES_def startswith_def split: if_splits)

lemma endpoint_roles_style:
  "map_of ENDPOINT_ROLES t = Some ab \<Longrightarrow>
     \<exists>es l. map_of EDGE_STYLES t = Some es \<and> map_of es ''label'' = Some l"
  by (auto simp: ENDPOINT_ROLES_def EDGE_STYLES_def split: if_splits)

lemma edge_styles_roles:
  "map_of EDGE_STYLES t = Some es \<Longrightarrow> \<exists>ab. map_of ENDPOINT_ROLES t = Some ab"
  by (auto simp: ENDPOINT_ROLES_def EDGE_STYLES_def split: if_splits)

lemma for_each_append:
  "for_each f st (xs @ ys) =
     (case for_each f st xs of Inl e \<Rightarrow> Inl e | Inr st' \<Rightarrow> for_each f st' ys)"
  by (induction xs arbitrary: st) (auto split: sum.splits)

lemma process_item_relation:
  assumes "map_of ENDPOINT_ROLES t = Some (a, b)"
    and "map_of item ''@type'' = Some (JStr t)"
  shows "process_item st (JObj item) = process_simple_relation st item"
  using assms endpoint_roles_dispatch [OF assms(1)]
  by (auto simp: process_item_def process_relation_def dict_get_def)

lemma process_simple_relation_dropped:
  assumes "map_of ENDPOINT_ROLES t = Some (a, b)"
    and "map_of item ''@type'' = Some (JStr t)"
    and "\<not> truthy (dict_get item a JNull) \<or> \<not> truthy (dict_get item b JNull)"
  shows "process_simple_relation st item = Inr st"
  using assms endpoint_roles_endpoints [OF assms(1), of item]
  by (auto simp: process_simple_relation_def dict_get_def Let_def)

lemma dict_get_update_other:
  "k' \<noteq> k \<Longrightarrow> dict_get (AList.update k v d) k' dflt = dict_get d k' dflt"
  by (simp add: dict_get_def update_conv')

lemma dict_get_update_same: "dict_get (AList.update k v d) k dflt = v"
  by (simp add: dict_get_def update_conv')

text \<open>
  Claim C2. For a graph item of a recognized relation type, when either of the two endpoint
  role properties of that type is absent, the loop body of \<^verbatim>\<open>convert\<close> returns without
  an exception and leaves the converter unchanged (no edge is appended), so the loop over
  \<^verbatim>\<open>@graph\<close> and the DOT text are what they are without the item.
\<close>

theorem missing_endpoint_dropped:
  assumes "map_of ENDPOINT_ROLES t = Some (a, b)"
    and "map_of item ''@type'' = Some (JStr t)"
    and "map_of item a = None \<or> map_of item b = None"
  shows "process_item st (JObj item) = Inr st
     \<and> for_each process_item st (xs @ JObj item # ys) = for_each process_item st (xs @ ys)
     \<and> (map_of doc ''@graph'' = Some (JList (xs @ JObj item # ys)) \<longrightarrow>
          convert st (JObj doc) =
          convert st (JObj (AList.update ''@graph'' (JList (xs @ ys)) doc)))"
proof -
  have "\<not> truthy (dict_get item a JNull) \<or> \<not> truthy (dict_get item b JNull)"
    using assms(3) by (auto simp: dict_get_def)
  then have *: "process_item st (JObj item) = Inr st" for st
    using process_item_relation [OF assms(1,2)] process_simple_relation_dropped [OF assms(1,2)]
    by simp
  have **: "for_each process_item st (xs @ JObj item # ys) = for_each process_item st (xs @ ys)"
    for st
    by (simp add: for_each_append * split: sum.splits)
  have "build st (JObj doc) = build st (JObj (AList.update ''@graph'' (JList (xs @ ys)) doc))"
    if "map_of doc ''@graph'' = Some (JList (xs @ JObj item # ys))"
  proof -
    have "dict_get doc ''@graph'' (JList []) = JList (xs @ JObj item # ys)"
      using that by (simp add: dict_get_def)
    then show ?thesis
      by (simp add: build_def dict_get_update_other dict_get_update_same ** split: sum.splits)
  qed
  then show ?thesis
    using * ** by (simp add: convert_def)
qed

text \<open>A \<^verbatim>\<open>prov:Usage\<close> item with no \<^verbatim>\<open>entity\<close>.\<close>

theorem missing_endpoint_dropped_witness:
  "process_item (init True ''LR'')
     (JObj [(''@type'', JStr ''prov:Usage''), (''activity'', JStr ''a1'')]) =
   Inr (init True ''LR'')
   \<and> convert (init True ''LR'')
       (JObj [(''@graph'', JList [JObj [(''@type'', JStr ''prov:Usage''), (''activity'', JStr ''a1'')]])]) =
     convert (init True ''LR'') (JObj [(''@graph'', JList [])])"
  using missing_endpoint_dropped [of "''prov:Usage''" "''activity''" "''entity''"
      "[(''@type'', JStr ''prov:Usage''), (''activity'', JStr ''a1'')]"
      "init True ''LR''" "[]" "[]"
      "[(''@graph'', JList [JObj [(''@type'', JStr ''prov:Usage''), (''activity'', JStr ''a1'')]])]"]
  by (simp add: ENDPOINT_ROLES_def)

lemma process_simple_relation_edge:
  assumes "map_of ENDPOINT_ROLES t = Some (a, b)"
    and "map_of item ''@type'' = Some (JStr t)"
    and "truthy (dict_get item a JNull)" and "truthy (dict_get item b JNull)"
    and "show_relation_labels st"
    and "map_of EDGE_STYLES t = Some es" and "map_of es ''label'' = Some l"
  shows "process_simple_relation st item =
     Inr (st\<lparr>edges := edges st @
            [\<lparr>e_source = dict_get item a JNull, e_target = dict_get item b JNull,
              e_style = (case map_of es ''style'' of None \<Rightarrow> ''solid'' | Some s \<Rightarrow> s),
              e_dir = (case map_of es ''dir'' of None \<Rightarrow> ''forward'' | Some d \<Rightarrow> d),
              e_arrowhead = (case map_of es ''arrowhead'' of None \<Rightarrow> ''normal'' | Some h \<Rightarrow> h),
              e_color = map_of es ''color'',
              e_label = Some (if extra_info item = [] then l
                              else l @ esc_n @ ''('' @ join '', '' (extra_info item) @ '')'')\<rparr>]\<rparr>)"
proof -
  have c: "CHR '':'' \<in> set t"
    using endpoint_roles_dispatch [OF assms(1)] by simp
  show ?thesis
    using assms(2-6) endpoint_roles_endpoints [OF assms(1), of item]
      relation_label_eq [OF assms(7) c, of item]
    by (simp add: process_simple_relation_def dict_get_def Let_def)
qed

text \<open>
  Claim C5, as amended. For an item of a recognized relation type whose two endpoints are
  present and truthy, with labels enabled, the edge label is the Registry's human label
  when there is no annotation; otherwise it is that label, the two characters \<^verbatim>\<open>\n\<close>
  (backslash, n), and in parentheses the annotations separated by a comma and a space,
  role before time. The role annotation is \<^verbatim>\<open>role:\<close> and the \<^verbatim>\<open>@value\<close> of the first
  element of the \<^verbatim>\<open>prov:role\<close> list; the time annotation is \<^verbatim>\<open>@\<close> and the text between
  the first \<^verbatim>\<open>T\<close> of the \<^verbatim>\<open>time\<close> string (\<^verbatim>\<open>prov:time\<close> only when there is no \<^verbatim>\<open>time\<close>
  key) and the next \<^verbatim>\<open>T\<close> or dot.
\<close>

theorem edge_label_annotations:
  assumes "map_of ENDPOINT_ROLES t = Some (a, b)"
    and "map_of item ''@type'' = Some (JStr t)"
    and "truthy (dict_get item a JNull)" and "truthy (dict_get item b JNull)"
    and "show_relation_labels st"
  shows "\<exists>e l. process_item st (JObj item) = Inr (st\<lparr>edges := edges st @ [e]\<rparr>)
           \<and> registry_label t = Some l
           \<and> e_label e = Some (if extra_info item = [] then l
                               else l @ esc_n @ ''('' @ join '', '' (extra_info item) @ '')'')"
proof -
  obtain es l where es: "map_of EDGE_STYLES t = Some es" "map_of es ''label'' = Some l"
    using endpoint_roles_style [OF assms(1)] by blast
  have "registry_label t = Some l"
    using es by (simp add: registry_label_def)
  then show ?thesis
    using process_item_relation [OF assms(1,2), of st]
      process_simple_relation_edge [OF assms es]
    by (intro exI [of _ "\<lparr>e_source = dict_get item a JNull, e_target = dict_get item b JNull,
              e_style = (case map_of es ''style'' of None \<Rightarrow> ''solid'' | Some s \<Rightarrow> s),
              e_dir = (case map_of es ''dir'' of None \<Rightarrow> ''forward'' | Some d \<Rightarrow> d),
              e_arrowhead = (case map_of es ''arrowhead'' of None \<Rightarrow> ''normal'' | Some h \<Rightarrow> h),
              e_color = map_of es ''color'',
              e_label = Some (if extra_info item = [] then l
                              else l @ esc_n @ ''('' @ join '', '' (extra_info item) @ '')'')\<rparr>"]
          exI [of _ l]) simp
qed

text \<open>
  Claim C5 as stated fails: for a \<^verbatim>\<open>prov:Generation\<close> item with a role and a time, the
  label is \<^verbatim>\<open>wasGeneratedBy\n(role:r, @12:00:00)\<close>, which is not the label with the two
  suffixes newline-joined, whether the newline is the escape \<^verbatim>\<open>\n\<close> or the character.
\<close>

theorem edge_label_not_newline_joined:
  "process_item (init True ''LR'')
     (JObj [(''@type'', JStr ''prov:Generation''), (''activity'', JStr ''a1''),
            (''entity'', JStr ''e1''), (''prov:role'', JList [JObj [(''@value'', JStr ''r'')]]),
            (''time'', JStr ''2020-01-01T12:00:00'')]) =
   Inr ((init True ''LR'')\<lparr>edges :=
     [\<lparr>e_source = JStr ''a1'', e_target = JStr ''e1'', e_style = ''solid'', e_dir = ''back'',
       e_arrowhead = ''normal'', e_color = Some ''#006400'',
       e_label = Some (''wasGeneratedBy'' @ esc_n @ ''(role:r, @12:00:00)'')\<rparr>]\<rparr>)
   \<and> ''wasGeneratedBy'' @ esc_n @ ''(role:r, @12:00:00)'' \<noteq>
       label_newline_joined esc_n ''wasGeneratedBy'' [''role:r'', ''@12:00:00'']
   \<and> ''wasGeneratedBy'' @ esc_n @ ''(role:r, @12:00:00)'' \<noteq>
       label_newline_joined [CHR 0x0A] ''wasGeneratedBy'' [''role:r'', ''@12:00:00'']"
  by (simp add: process_item_def process_relation_def process_simple_relation_def dict_get_def
        NODE_SHAPES_def EDGE_STYLES_def get_edge_endpoints_def Let_def startswith_def init_def
        relation_label_eq extra_info_def role_info_def py_str_def time_part_def
        label_newline_joined_def esc_n_def)

text \<open>With a time zone designator the time annotation is not of the form HH:MM:SS.\<close>

theorem edge_label_annotations_witness:
  "\<exists>e l. process_item (init True ''LR'')
     (JObj [(''@type'', JStr ''prov:Generation''), (''activity'', JStr ''a1''),
            (''entity'', JStr ''e1''), (''prov:role'', JList [JObj [(''@value'', JStr ''r'')]]),
            (''time'', JStr ''2020-01-01T12:00:00Z'')]) =
       Inr ((init True ''LR'')\<lparr>edges := [e]\<rparr>)
     \<and> registry_label ''prov:Generation'' = Some l
     \<and> e_label e = Some (l @ esc_n @ ''(role:r, @12:00:00Z)'')"
  using edge_label_annotations [of "''prov:Generation''" "''activity''" "''entity''"
     "[(''@type'', JStr ''prov:Generation''), (''activity'', JStr ''a1''),
            (''entity'', JStr ''e1''), (''prov:role'', JList [JObj [(''@value'', JStr ''r'')]]),
            (''time'', JStr ''2020-01-01T12:00:00Z'')]" "init True ''LR''"]
  by (simp add: ENDPOINT_ROLES_def dict_get_def init_def extra_info_def role_info_def
       py_str_def time_part_def)

subsection \<open>Namespace compaction\<close>

lemma first_namespace_Some:
  "first_namespace ns uri = Some r \<Longrightarrow>
     \<exists>p n. (p, JStr n) \<in> set ns \<and> r = p @ '':'' @ drop (length n) uri"
proof (induction ns)
  case Nil
  then show ?case by simp
next
  case (Cons pn ns)
  obtain p v where pn: "pn = (p, v)" by (cases pn)
  show ?case
  proof (cases "\<exists>n. v = JStr n \<and> startswith uri n")
    case True
    then obtain n where "v = JStr n" "startswith uri n" by blast
    with Cons.prems pn have "r = p @ '':'' @ drop (length n) uri" by simp
    with \<open>v = JStr n\<close> pn show ?thesis by auto
  next
    case False
    with Cons.prems pn have "first_namespace ns uri = Some r"
      by (cases v) (auto split: if_splits)
    from Cons.IH [OF this] show ?thesis by auto
  qed
qed

lemma startswith_append_cases:
  assumes "startswith (p @ q) w"
  shows "startswith p w \<or> (length p < length w \<and> p = take (length p) w
           \<and> startswith q (drop (length p) w))"
proof (cases "length w \<le> length p")
  case True
  with assms show ?thesis by (simp add: startswith_def)
next
  case False
  then have l: "length p < length w" by simp
  from assms have e: "take (length w) (p @ q) = w" by (simp add: startswith_def)
  from l e have "p @ take (length w - length p) q = w" by simp
  then have "p = take (length p) w" "take (length w - length p) q = drop (length p) w"
    by (metis append_eq_conv_conj)+
  with l show ?thesis by (simp add: startswith_def)
qed

lemma colon_after_prefix_http:
  assumes "k < 7" and "startswith (CHR '':'' # rest) (drop k ''http://'')"
  shows "k = 4"
proof -
  consider "k = 0" | "k = 1" | "k = 2" | "k = 3" | "k = 4" | "k = 5" | "k = 6"
    using assms(1) by linarith
  then show ?thesis
    using assms(2) by cases (simp_all add: startswith_def)
qed

lemma colon_after_prefix_https:
  assumes "k < 8" and "startswith (CHR '':'' # rest) (drop k ''https://'')"
  shows "k = 5"
proof -
  consider "k = 0" | "k = 1" | "k = 2" | "k = 3" | "k = 4" | "k = 5" | "k = 6" | "k = 7"
    using assms(1) by linarith
  then show ?thesis
    using assms(2) by cases (simp_all add: startswith_def)
qed

lemma plain_prefix_http:
  assumes "plain_prefix p"
  shows "\<not> startswith (p @ '':'' @ rest) ''http://''"
proof
  assume "startswith (p @ '':'' @ rest) ''http://''"
  from startswith_append_cases [OF this] assms
  have l: "length p < 7" and p: "p = take (length p) ''http://''"
    and s: "startswith (CHR '':'' # rest) (drop (length p) ''http://'')"
    by (auto simp: plain_prefix_def)
  from colon_after_prefix_http [OF l s] p have "p = ''http''" by simp
  with assms show False by (simp add: plain_prefix_def)
qed

lemma plain_prefix_https:
  assumes "plain_prefix p"
  shows "\<not> startswith (p @ '':'' @ rest) ''https://''"
proof
  assume "startswith (p @ '':'' @ rest) ''https://''"
  from startswith_append_cases [OF this] assms
  have l: "length p < 8" and p: "p = take (length p) ''https://''"
    and s: "startswith (CHR '':'' # rest) (drop (length p) ''https://'')"
    by (auto simp: plain_prefix_def)
  from colon_after_prefix_https [OF l s] p have "p = ''https''" by simp
  with assms show False by (simp add: plain_prefix_def)
qed

text \<open>
  Claim C4, as amended. For every namespace map in which no prefix name is \<^verbatim>\<open>http\<close> or
  \<^verbatim>\<open>https\<close> or begins with \<^verbatim>\<open>http://\<close> or \<^verbatim>\<open>https://\<close>, compaction is idempotent; and,
  for every namespace map, a string that does not start with \<^verbatim>\<open>http://\<close> or \<^verbatim>\<open>https://\<close>
  passes through unchanged.
\<close>

theorem shorten_uri_idempotent:
  "((\<forall>(p, n) \<in> set ns. plain_prefix p) \<longrightarrow>
       shorten_uri ns (shorten_uri ns s) = shorten_uri ns s)
   \<and> (\<not> startswith s ''http://'' \<and> \<not> startswith s ''https://'' \<longrightarrow> shorten_uri ms s = s)"
proof (intro conjI impI)
  assume plain: "\<forall>(p, n) \<in> set ns. plain_prefix p"
  show "shorten_uri ns (shorten_uri ns s) = shorten_uri ns s"
  proof (cases "first_namespace ns s")
    case None
    then have "shorten_uri ns s = s" by (simp add: shorten_uri_def)
    then show ?thesis by simp
  next
    case (Some r)
    then obtain p n where pn: "(p, JStr n) \<in> set ns" "r = p @ '':'' @ drop (length n) s"
      using first_namespace_Some by blast
    then have "plain_prefix p" using plain by auto
    then have "\<not> startswith r ''http://''" "\<not> startswith r ''https://''"
      using plain_prefix_http plain_prefix_https pn(2) by auto
    then have r: "shorten_uri ns r = r" by (simp add: shorten_uri_def)
    have "shorten_uri ns s = s \<or> shorten_uri ns s = r"
      using Some by (simp add: shorten_uri_def)
    then show ?thesis
    proof
      assume "shorten_uri ns s = s" then show ?thesis by simp
    next
      assume "shorten_uri ns s = r" with r show ?thesis by simp
    qed
  qed
next
  assume "\<not> startswith s ''http://'' \<and> \<not> startswith s ''https://''"
  then show "shorten_uri ms s = s" by (simp add: shorten_uri_def)
qed

text \<open>
  The prefix \<^verbatim>\<open>ex\<close> for \<^verbatim>\<open>http://example.org/\<close>; and a compact name passes through
  also where the prefix \<^verbatim>\<open>http\<close> is declared.
\<close>

theorem shorten_uri_idempotent_witness:
  "shorten_uri [(''ex'', JStr ''http://example.org/'')]
     (shorten_uri [(''ex'', JStr ''http://example.org/'')] ''http://example.org/e1'') = ''ex:e1''
   \<and> shorten_uri [(''http'', JStr ''http://x/'')] ''ex:e1'' = ''ex:e1''"
  using shorten_uri_idempotent [of "[(''ex'', JStr ''http://example.org/'')]"
      "''http://example.org/e1''" "[]"]
    shorten_uri_idempotent [of "[]" "''ex:e1''" "[(''http'', JStr ''http://x/'')]"]
  by (simp add: plain_prefix_def startswith_def shorten_uri_def)

text \<open>
  Claim C4 as stated fails: with the prefix \<^verbatim>\<open>http\<close> declared for \<^verbatim>\<open>http://x/\<close>, the URI
  \<^verbatim>\<open>http://x///x/foo\<close> compacts to \<^verbatim>\<open>http://x/foo\<close>, which compacts again to \<^verbatim>\<open>http:foo\<close>.
\<close>

theorem shorten_uri_not_idempotent:
  "shorten_uri [(''http'', JStr ''http://x/'')]
     (shorten_uri [(''http'', JStr ''http://x/'')] ''http://x///x/foo'')
   \<noteq> shorten_uri [(''http'', JStr ''http://x/'')] ''http://x///x/foo''"
  by (simp add: shorten_uri_def startswith_def)

subsection \<open>Node labels\<close>

lemma label_props_loop_first_some:
  "label_props_loop item ps = first_some (map (\<lambda>p. property_label item (p, True)) ps)"
  by (induction ps) (auto simp: property_label_def split: option.splits)

lemma id_label_str:
  "id_label (JStr s) = Inr (JStr (if s = [] then ''anonymous'' else strip_namespace s))"
  by (simp add: id_label_def split_once_def py_index_def strip_namespace_def)

lemma get_label_first_some:
  "get_label item =
     (case first_some (map (property_label item) label_priority) of
        Some v \<Rightarrow> Inr v
      | None \<Rightarrow> id_label (dict_get item ''@id'' (JStr [])))"
proof -
  have a: "first_some (map (property_label item) label_priority) =
     (case property_label item (''prov:label'', False) of
        Some v \<Rightarrow> Some v
      | None \<Rightarrow> label_props_loop item
          [''rdfs:label'', ''foaf:name'', ''dcterms:title'', ''name'', ''title''])"
    unfolding label_props_loop_first_some
    by (simp add: label_priority_def split: option.splits)
  have b: "property_label item (''prov:label'', False) =
     (case map_of item ''prov:label'' of None \<Rightarrow> None
      | Some labels \<Rightarrow> value_object_label False labels)"
    by (simp add: property_label_def)
  show ?thesis
    unfolding a b get_label_def Let_def
    by (simp split: option.splits)
qed

text \<open>
  Claim C7. The display label of a node item is the value of the first property, in the
  order \<^verbatim>\<open>prov:label\<close>, \<^verbatim>\<open>rdfs:label\<close>, \<^verbatim>\<open>foaf:name\<close>, \<^verbatim>\<open>dcterms:title\<close>, \<^verbatim>\<open>name\<close>,
  \<^verbatim>\<open>title\<close>, that yields one; when none does, it is the \<^verbatim>\<open>@id\<close> without its namespace
  prefix, and \<^verbatim>\<open>anonymous\<close> when the \<^verbatim>\<open>@id\<close> is absent or empty.
\<close>

theorem get_label_priority:
  "(first_some (map (property_label item) label_priority) = Some v \<longrightarrow> get_label item = Inr v)
   \<and> (first_some (map (property_label item) label_priority) = None \<longrightarrow>
        (map_of item ''@id'' = Some (JStr s) \<longrightarrow>
           get_label item = Inr (JStr (if s = [] then ''anonymous'' else strip_namespace s)))
        \<and> (map_of item ''@id'' = None \<longrightarrow> get_label item = Inr (JStr ''anonymous'')))"
  using id_label_str [of s] id_label_str [of "[]"]
  by (simp add: get_label_first_some dict_get_def)

text \<open>
  \<^verbatim>\<open>rdfs:label\<close> wins over \<^verbatim>\<open>foaf:name\<close> whatever their order in the item; a
  \<^verbatim>\<open>prov:label\<close> that yields nothing falls through to the \<^verbatim>\<open>@id\<close>.
\<close>

theorem get_label_priority_witness:
  "get_label [(''@id'', JStr ''ex:e1''), (''foaf:name'', JList [JStr ''Ann'']),
              (''rdfs:label'', JList [JObj [(''@value'', JStr ''Bob'')]])] = Inr (JStr ''Bob'')
   \<and> get_label [(''@id'', JStr ''ex:e1''), (''prov:label'', JList [JStr ''Ann''])] = Inr (JStr ''e1'')
   \<and> get_label [(''prov:type'', JStr ''x'')] = Inr (JStr ''anonymous'')"
  using get_label_priority [of "[(''@id'', JStr ''ex:e1''), (''foaf:name'', JList [JStr ''Ann'']),
              (''rdfs:label'', JList [JObj [(''@value'', JStr ''Bob'')]])]" "JStr ''Bob''" "''ex:e1''"]
    get_label_priority [of "[(''@id'', JStr ''ex:e1''), (''prov:label'', JList [JStr ''Ann''])]"
       "JNull" "''ex:e1''"]
    get_label_priority [of "[(''prov:type'', JStr ''x'')]" "JNull" "[]"]
  by (simp add: label_priority_def property_label_def value_object_label_def strip_namespace_def)

subsection \<open>Value objects of the PROV-JSON importer\<close>

lemma convert_value_item_scalar:
  "\<forall>d. item \<noteq> JObj d \<Longrightarrow> convert_value_item item = JObj [(''@value'', JStr (py_str item))]"
  by (cases item) (simp_all add: convert_value_item_def)

lemma convert_label_item_scalar:
  "\<forall>d. item \<noteq> JObj d \<Longrightarrow> convert_label_item item = JObj [(''@value'', JStr (py_str item))]"
  by (cases item) (simp_all add: convert_label_item_def)

lemma convert_value_item_translated:
  assumes "map_of d ''$'' \<noteq> None \<or> map_of d ''type'' \<noteq> None"
  shows "\<exists>r. convert_value_item (JObj d) = JObj r
           \<and> map_of r ''@value'' = map_of d ''$'' \<and> map_of r ''@type'' = map_of d ''type''
           \<and> map_of r ''@language'' = map_of d ''lang''
           \<and> fst ` set r \<subseteq> {''@value'', ''@type'', ''@language''}"
proof -
  have "convert_value_item (JObj d) =
     JObj ((case map_of d ''$'' of Some v \<Rightarrow> [(''@value'', v)] | None \<Rightarrow> [])
         @ (case map_of d ''type'' of Some v \<Rightarrow> [(''@type'', v)] | None \<Rightarrow> [])
         @ (case map_of d ''lang'' of Some v \<Rightarrow> [(''@language'', v)] | None \<Rightarrow> []))"
    using assms by (simp add: convert_value_item_def Let_def split: option.splits)
  then show ?thesis
    by (simp split: option.splits)
qed

lemma convert_value_item_unchanged:
  "map_of d ''$'' = None \<and> map_of d ''type'' = None \<Longrightarrow> convert_value_item (JObj d) = JObj d"
  by (simp add: convert_value_item_def)

lemma convert_label_item_object:
  "\<exists>r. convert_label_item (JObj d) = JObj r
         \<and> map_of r ''@value'' = Some (dict_get d ''$'' (JStr []))
         \<and> map_of r ''@language'' = map_of d ''lang''
         \<and> fst ` set r \<subseteq> {''@value'', ''@language''}"
  by (simp add: convert_label_item_def Let_def split: option.splits)

lemma convert_value_elementwise:
  "convert_value (JList xs) = map convert_value_item xs
   \<and> convert_label (JList xs) = map convert_label_item xs
   \<and> ((\<forall>ys. v \<noteq> JList ys) \<longrightarrow>
        convert_value v = [convert_value_item v] \<and> convert_label v = [convert_label_item v])"
  by (cases v) (simp_all add: convert_value_def convert_label_def)

text \<open>
  Claim C6, as amended. \<^verbatim>\<open>_convert_value\<close> and \<^verbatim>\<open>_convert_label\<close> treat a list element by
  element and any other value as a single element. An element that is not an object is
  wrapped as the one-key object with \<^verbatim>\<open>@value\<close> the element's \<^verbatim>\<open>str\<close>. Value conversion
  translates an object that carries \<^verbatim>\<open>$\<close> or \<^verbatim>\<open>type\<close> into an object with exactly the keys
  \<^verbatim>\<open>@value\<close>, \<^verbatim>\<open>@type\<close>, \<^verbatim>\<open>@language\<close> for the \<^verbatim>\<open>$\<close>, \<^verbatim>\<open>type\<close>, \<^verbatim>\<open>lang\<close> it has, and
  returns an object with neither \<^verbatim>\<open>$\<close> nor \<^verbatim>\<open>type\<close> unchanged. Label conversion turns
  every object into one with \<^verbatim>\<open>@value\<close> (the \<^verbatim>\<open>$\<close>, or the empty string) and
  \<^verbatim>\<open>@language\<close> when it has \<^verbatim>\<open>lang\<close>, and nothing else.
\<close>

theorem convert_value_wraps:
  "((\<forall>d. item \<noteq> JObj d) \<longrightarrow>
       convert_value_item item = JObj [(''@value'', JStr (py_str item))]
     \<and> convert_label_item item = JObj [(''@value'', JStr (py_str item))])
   \<and> (map_of d ''$'' \<noteq> None \<or> map_of d ''type'' \<noteq> None \<longrightarrow>
        (\<exists>r. convert_value_item (JObj d) = JObj r
           \<and> map_of r ''@value'' = map_of d ''$'' \<and> map_of r ''@type'' = map_of d ''type''
           \<and> map_of r ''@language'' = map_of d ''lang''
           \<and> fst ` set r \<subseteq> {''@value'', ''@type'', ''@language''}))
   \<and> (map_of d ''$'' = None \<and> map_of d ''type'' = None \<longrightarrow>
        convert_value_item (JObj d) = JObj d)
   \<and> (\<exists>r. convert_label_item (JObj d) = JObj r
         \<and> map_of r ''@value'' = Some (dict_get d ''$'' (JStr []))
         \<and> map_of r ''@language'' = map_of d ''lang''
         \<and> fst ` set r \<subseteq> {''@value'', ''@language''})
   \<and> convert_value (JList xs) = map convert_value_item xs
   \<and> convert_label (JList xs) = map convert_label_item xs
   \<and> ((\<forall>ys. v \<noteq> JList ys) \<longrightarrow>
        convert_value v = [convert_value_item v] \<and> convert_label v = [convert_label_item v])"
  using convert_value_item_scalar [of item] convert_label_item_scalar [of item]
    convert_value_item_translated [of d] convert_value_item_unchanged [of d]
    convert_label_item_object [of d] convert_value_elementwise [of xs v]
  by blast

text \<open>
  Claim C6 as stated fails: an object that carries only \<^verbatim>\<open>lang\<close> is returned as it is,
  with no \<^verbatim>\<open>@language\<close> key; and label conversion does not follow the rule for
  \<^verbatim>\<open>type\<close>, which it drops.
\<close>

theorem convert_value_lang_only:
  "convert_value (JObj [(''lang'', JStr ''en'')]) = [JObj [(''lang'', JStr ''en'')]]
   \<and> convert_label (JObj [(''$'', JStr ''x''), (''type'', JStr ''xsd:string'')]) =
       [JObj [(''@value'', JStr ''x'')]]"
  by (simp add: convert_value_def convert_value_item_def convert_label_def
      convert_label_item_def dict_get_def)

lemma str_int_42: "str_int 42 = ''42''"
  by code_simp

text \<open>A number, a typed value, an object without \<^verbatim>\<open>$\<close> and \<^verbatim>\<open>type\<close>, a label without \<^verbatim>\<open>$\<close>.\<close>

theorem convert_value_wraps_witness:
  "convert_value (JNum 42) = [JObj [(''@value'', JStr ''42'')]]
   \<and> convert_value (JObj [(''$'', JStr ''x''), (''lang'', JStr ''en'')]) =
       [JObj [(''@value'', JStr ''x''), (''@language'', JStr ''en'')]]
   \<and> convert_value (JObj [(''k'', JStr ''x'')]) = [JObj [(''k'', JStr ''x'')]]
   \<and> convert_label (JObj [(''lang'', JStr ''en'')]) =
       [JObj [(''@value'', JStr []), (''@language'', JStr ''en'')]]"
  using convert_value_wraps [of "JNum 42" "[(''$'', JStr ''x''), (''lang'', JStr ''en'')]" "[]" "JNum 42"]
    convert_value_wraps [of "JNum 42" "[(''k'', JStr ''x'')]" "[]" "JObj [(''k'', JStr ''x'')]"]
    convert_value_wraps [of "JNum 42" "[(''lang'', JStr ''en'')]" "[]" "JObj [(''lang'', JStr ''en'')]"]
    convert_value_wraps [of "JNum 42" "[(''$'', JStr ''x''), (''lang'', JStr ''en'')]" "[]"
       "JObj [(''$'', JStr ''x''), (''lang'', JStr ''en'')]"]
  by (simp add: convert_value_item_def convert_label_item_def dict_get_def py_str_def str_int_42)

subsection \<open>PROV-JSON to PROV-JSONLD\<close>

lemma startswith_set: "startswith s p \<Longrightarrow> set p \<subseteq> set s"
proof -
  assume "startswith s p"
  then have "p = take (length p) s" by (simp add: startswith_def)
  then have "set p = set (take (length p) s)" by simp
  then show ?thesis using set_take_subset by fastforce
qed

lemma startswith_prov_colon: "startswith key ''prov:'' \<Longrightarrow> CHR '':'' \<in> set key"
  using startswith_set [of key "''prov:''"] by auto

lemma plain_key_facts:
  assumes "CHR '':'' \<notin> set k"
  shows "k \<noteq> ''prov:type''" "k \<noteq> ''prov:label''" "k \<noteq> ''prov:location''"
    "k \<noteq> ''prov:value''" "k \<noteq> ''prov:role''" "\<not> startswith k ''prov:''"
  using assms startswith_prov_colon [of k] by auto

lemma element_step_plain_key:
  assumes "CHR '':'' \<notin> set k"
  shows "map_of (element_step kv obj) k = map_of obj k"
proof -
  obtain key v where kv: "kv = (key, v)" by (cases kv)
  show ?thesis
  proof (cases "CHR '':'' \<in> set key")
    case True
    with assms have "key \<noteq> k" by auto
    then show ?thesis
      unfolding kv element_step_def using plain_key_facts [OF assms]
      by (simp add: update_conv')
  next
    case False
    show ?thesis
      unfolding kv element_step_def using False plain_key_facts [OF False] by simp
  qed
qed

lemma fold_element_step_plain_key:
  "CHR '':'' \<notin> set k \<Longrightarrow> map_of (fold element_step entries obj) k = map_of obj k"
  by (induction entries arbitrary: obj) (simp_all add: element_step_plain_key)

lemma relation_step_plain_key:
  assumes "CHR '':'' \<notin> set k"
  shows "map_of (relation_step pm kv obj) k = map_of obj k"
proof -
  obtain key v where kv: "kv = (key, v)" by (cases kv)
  show ?thesis
  proof (cases "CHR '':'' \<in> set key")
    case True
    with assms have "key \<noteq> k" by auto
    then show ?thesis
      unfolding kv relation_step_def using plain_key_facts [OF assms]
      by (simp add: update_conv')
  next
    case False
    show ?thesis
      unfolding kv relation_step_def using False plain_key_facts [OF False] by simp
  qed
qed

lemma fold_relation_step_plain_key:
  "CHR '':'' \<notin> set k \<Longrightarrow> map_of (fold (relation_step pm) entries obj) k = map_of obj k"
  by (induction entries arbitrary: obj) (simp_all add: relation_step_plain_key)

lemma convert_element_type:
  "\<exists>obj. convert_element item_id (JObj data) type_name = Inr obj
      \<and> map_of obj ''@type'' = Some (JStr type_name)
      \<and> map_of obj ''@id'' = Some (JStr item_id)"
  by (simp add: convert_element_def Let_def update_conv' fold_element_step_plain_key
      split: option.splits)

lemma convert_relation_generation:
  "\<exists>obj. convert_relation item_id (JObj data) type_name ''wasGeneratedBy'' = Inr obj
      \<and> map_of obj ''@type'' = Some (JStr type_name)
      \<and> map_of obj ''activity'' = map_of data ''prov:activity''
      \<and> map_of obj ''entity'' = map_of data ''prov:entity''"
  by (simp add: convert_relation_def RELATION_PROPERTIES_def property_step_def Let_def
      update_conv' fold_relation_step_plain_key split: option.splits)

text \<open>
  Claim C3. A PROV-JSON document whose only categories are \<^verbatim>\<open>entity\<close>, \<^verbatim>\<open>activity\<close> and
  \<^verbatim>\<open>wasGeneratedBy\<close>, each with exactly one entry (and whose \<^verbatim>\<open>prefix\<close>, if any, is an
  object), converts to a document whose \<^verbatim>\<open>@graph\<close> has exactly three objects, of
  \<^verbatim>\<open>@type\<close> \<^verbatim>\<open>prov:Entity\<close>, \<^verbatim>\<open>prov:Activity\<close> and \<^verbatim>\<open>prov:Generation\<close> in this order, and
  the \<^verbatim>\<open>activity\<close> and \<^verbatim>\<open>entity\<close> of the third are the \<^verbatim>\<open>prov:activity\<close> and
  \<^verbatim>\<open>prov:entity\<close> of the input record.
\<close>

theorem convert_ld_three_objects:
  assumes "map_of doc ''entity'' = Some (JObj [(eid, JObj edata)])"
    and "map_of doc ''activity'' = Some (JObj [(aid, JObj adata)])"
    and "map_of doc ''wasGeneratedBy'' = Some (JObj [(gid, JObj gdata)])"
    and "only_categories doc [''entity'', ''activity'', ''wasGeneratedBy'']"
    and "map_of doc ''prefix'' = None \<or> (\<exists>ns. map_of doc ''prefix'' = Some (JObj ns))"
  shows "\<exists>ctx e a g. convert_ld (JObj doc) =
             Inr (JObj [(''@context'', JList ctx), (''@graph'', JList [JObj e, JObj a, JObj g])])
         \<and> map_of e ''@type'' = Some (JStr ''prov:Entity'')
         \<and> map_of a ''@type'' = Some (JStr ''prov:Activity'')
         \<and> map_of g ''@type'' = Some (JStr ''prov:Generation'')
         \<and> map_of g ''activity'' = map_of gdata ''prov:activity''
         \<and> map_of g ''entity'' = map_of gdata ''prov:entity''"
proof -
  obtain e where e: "convert_element eid (JObj edata) ''prov:Entity'' = Inr e"
      "map_of e ''@type'' = Some (JStr ''prov:Entity'')"
    using convert_element_type by blast
  obtain a where a: "convert_element aid (JObj adata) ''prov:Activity'' = Inr a"
      "map_of a ''@type'' = Some (JStr ''prov:Activity'')"
    using convert_element_type by blast
  obtain g where g: "convert_relation gid (JObj gdata) ''prov:Generation'' ''wasGeneratedBy'' = Inr g"
      "map_of g ''@type'' = Some (JStr ''prov:Generation'')"
      "map_of g ''activity'' = map_of gdata ''prov:activity''"
      "map_of g ''entity'' = map_of gdata ''prov:entity''"
    using convert_relation_generation by blast
  have ce: "convert_category ''entity'' (JObj [(eid, JObj edata)]) ''prov:Entity'' = Inr [JObj e]"
    using e(1) by (simp add: convert_category_def convert_item_def RELATION_PROPERTIES_def)
  have ca: "convert_category ''activity'' (JObj [(aid, JObj adata)]) ''prov:Activity'' = Inr [JObj a]"
    using a(1) by (simp add: convert_category_def convert_item_def RELATION_PROPERTIES_def)
  have cg: "convert_category ''wasGeneratedBy'' (JObj [(gid, JObj gdata)]) ''prov:Generation''
      = Inr [JObj g]"
    using g(1) by (simp add: convert_category_def convert_item_def RELATION_PROPERTIES_def)
  have others: "map_of doc ''agent'' = None" "map_of doc ''used'' = None"
    "map_of doc ''wasInformedBy'' = None" "map_of doc ''wasStartedBy'' = None"
    "map_of doc ''wasEndedBy'' = None" "map_of doc ''wasInvalidatedBy'' = None"
    "map_of doc ''wasDerivedFrom'' = None" "map_of doc ''wasAttributedTo'' = None"
    "map_of doc ''wasAssociatedWith'' = None" "map_of doc ''actedOnBehalfOf'' = None"
    "map_of doc ''wasInfluencedBy'' = None" "map_of doc ''specializationOf'' = None"
    "map_of doc ''alternateOf'' = None" "map_of doc ''hadMember'' = None"
    "map_of doc ''bundle'' = None"
    using assms(4) by (simp_all add: only_categories_def TYPE_MAPPINGS_def)
  have loop: "for_each (category_step (JObj doc)) [] TYPE_MAPPINGS = Inr [JObj e, JObj a, JObj g]"
    unfolding TYPE_MAPPINGS_def
    by (simp add: category_step_def assms(1-3) others ce ca cg)
  obtain ns where ns: "prefix_namespaces (JObj doc) = Inr ns"
    using assms(5) by (auto simp: prefix_namespaces_def)
  have "convert_ld (JObj doc) =
     Inr (JObj [(''@context'', JList (build_context ns)),
                (''@graph'', JList [JObj e, JObj a, JObj g])])"
    by (simp add: convert_ld_def ns others loop)
  with e(2) a(2) g(2-4) show ?thesis by blast
qed

text \<open>One entity, one activity and the generation of the one by the other.\<close>

theorem convert_ld_three_objects_witness:
  "\<exists>ctx e a g. convert_ld (JObj [(''prefix'', JObj [(''ex'', JStr ''http://example.org/'')]),
        (''entity'', JObj [(''ex:e1'', JObj [])]),
        (''activity'', JObj [(''ex:a1'', JObj [])]),
        (''wasGeneratedBy'', JObj [(''_:g1'', JObj [(''prov:entity'', JStr ''ex:e1''),
            (''prov:activity'', JStr ''ex:a1'')])])]) =
             Inr (JObj [(''@context'', JList ctx), (''@graph'', JList [JObj e, JObj a, JObj g])])
         \<and> map_of e ''@type'' = Some (JStr ''prov:Entity'')
         \<and> map_of a ''@type'' = Some (JStr ''prov:Activity'')
         \<and> map_of g ''@type'' = Some (JStr ''prov:Generation'')
         \<and> map_of g ''activity'' = Some (JStr ''ex:a1'')
         \<and> map_of g ''entity'' = Some (JStr ''ex:e1'')"
  using convert_ld_three_objects [of "[(''prefix'', JObj [(''ex'', JStr ''http://example.org/'')]),
        (''entity'', JObj [(''ex:e1'', JObj [])]),
        (''activity'', JObj [(''ex:a1'', JObj [])]),
        (''wasGeneratedBy'', JObj [(''_:g1'', JObj [(''prov:entity'', JStr ''ex:e1''),
            (''prov:activity'', JStr ''ex:a1'')])])]" "''ex:e1''" "[]" "''ex:a1''" "[]" "''_:g1''"
        "[(''prov:entity'', JStr ''ex:e1''), (''prov:activity'', JStr ''ex:a1'')]"]
  by (simp add: only_categories_def TYPE_MAPPINGS_def)

subsection \<open>The node table\<close>

lemma process_node_nodes:
  assumes "process_node st item = Inr st'"
  shows "\<exists>k nd. st' = st\<lparr>nodes := AList.update k nd (nodes st)\<rparr>"
  using assms unfolding process_node_def Let_def
  by (auto split: sum.splits)

lemma process_simple_relation_nodes:
  assumes "process_simple_relation st item = Inr st'"
  shows "nodes st' = nodes st"
  using assms unfolding process_simple_relation_def Let_def
  by (auto split: sum.splits prod.splits if_splits)

lemma process_item_distinct:
  assumes "process_item st it = Inr st'" and "distinct (map fst (nodes st))"
  shows "distinct (map fst (nodes st'))"
proof -
  have "(\<exists>k nd. st' = st\<lparr>nodes := AList.update k nd (nodes st)\<rparr>) \<or> nodes st' = nodes st"
    using assms(1) process_node_nodes process_simple_relation_nodes
    unfolding process_item_def process_relation_def Let_def
    by (auto split: json.splits sum.splits option.splits if_splits)
  then show ?thesis
    using assms(2) by (auto simp: distinct_update)
qed

lemma for_each_process_item_distinct:
  "for_each process_item st graph = Inr st' \<Longrightarrow> distinct (map fst (nodes st))
     \<Longrightarrow> distinct (map fst (nodes st'))"
proof (induction graph arbitrary: st)
  case Nil
  then show ?case by simp
next
  case (Cons it graph)
  then show ?case
    by (auto split: sum.splits dest: process_item_distinct)
qed

lemma extract_namespaces_nodes: "nodes (extract_namespaces st ctxs) = nodes st"
  unfolding extract_namespaces_def
  by (induction ctxs arbitrary: st) (auto split: json.splits)

lemma build_distinct:
  assumes "build st doc = Inr st'" and "distinct (map fst (nodes st))"
  shows "distinct (map fst (nodes st'))"
proof -
  from assms(1) obtain ctxs graph where
    "for_each process_item (extract_namespaces st ctxs) graph = Inr st'"
    unfolding build_def Let_def by (auto split: json.splits sum.splits)
  then show ?thesis
    using assms(2) for_each_process_item_distinct extract_namespaces_nodes by metis
qed

lemma map_each_length: "map_each f xs = Inr ys \<Longrightarrow> length ys = length xs"
  by (induction xs arbitrary: ys) (auto split: sum.splits)

lemma dot_lines_shape:
  assumes "dot_lines st = Inr ls"
  shows "\<exists>nls els. ls = dot_header st @ nls @ [''''] @ els @ [''}'']
           \<and> map_each node_statement (nodes st) = Inr nls
           \<and> map_each edge_statement (edges st) = Inr els"
  using assms unfolding dot_lines_def dot_header_def
  by (auto split: sum.splits)

lemma get_label_str_id:
  assumes "map_of item ''@id'' = None \<or> map_of item ''@id'' = Some (JStr i)"
  shows "\<exists>l. get_label item = Inr l"
  using assms id_label_str [of i] id_label_str [of "[]"]
  by (auto simp: get_label_first_some dict_get_def split: option.splits)

lemma process_node_str_id:
  assumes "map_of NODE_SHAPES t = Some shape" and "map_of item ''@type'' = Some (JStr t)"
    and "map_of item ''@id'' = None \<or> map_of item ''@id'' = Some (JStr i)"
  shows "\<exists>nd. \<forall>ns. process_node (st\<lparr>nodes := ns\<rparr>) item =
            Inr (st\<lparr>nodes := AList.update
                   (dict_get item ''@id'' (JStr (''anon_'' @ str_nat (length ns)))) nd ns\<rparr>)"
proof -
  obtain l where l: "get_label item = Inr l"
    using get_label_str_id assms(3) by blast
  define attrs where "attrs = concat (map (attribute_lines (namespaces st)) item)"
  define lab where "lab = (if show_attributes st \<and> attrs \<noteq> []
      then JStr (py_str l @ esc_n @ join esc_n (take 5 attrs)) else l)"
  define nd where "nd = \<lparr>n_label = lab, n_shape = shape,
      n_fillcolor = (case map_of NODE_COLORS t of None \<Rightarrow> ''#FFFFFF'' | Some c \<Rightarrow> c),
      n_style = ''filled'', n_type = JStr t\<rparr>"
  have k: "dict_key (dict_get item ''@id'' (JStr d)) = Inr (dict_get item ''@id'' (JStr d))" for d
    using assms(3) by (auto simp: dict_get_def)
  have "process_node (st\<lparr>nodes := ns\<rparr>) item =
            Inr (st\<lparr>nodes := AList.update
                   (dict_get item ''@id'' (JStr (''anon_'' @ str_nat (length ns)))) nd ns\<rparr>)" for ns
    unfolding process_node_def Let_def l get_attributes_text_def
    using assms(1,2) k [of "''anon_'' @ str_nat (length ns)"]
    by (simp add: nd_def lab_def attrs_def dict_get_def [of item "''@type''"])
  then show ?thesis by blast
qed

lemma process_item_node:
  assumes "map_of NODE_SHAPES t = Some shape" and "map_of item ''@type'' = Some (JStr t)"
  shows "process_item st (JObj item) = process_node st item"
  using assms by (simp add: process_item_def dict_get_def)

lemma dot_lines_nodes:
  assumes "distinct (map fst (nodes st))" and "dot_lines st = Inr ls"
  shows "\<exists>nls els. ls = dot_header st @ nls @ [''''] @ els @ [''}'']
           \<and> map_each node_statement (nodes st) = Inr nls
           \<and> map_each edge_statement (edges st) = Inr els
           \<and> length nls = card (fst ` set (nodes st))"
proof -
  obtain nls els where s: "ls = dot_header st @ nls @ [''''] @ els @ [''}'']"
    "map_each node_statement (nodes st) = Inr nls"
    "map_each edge_statement (edges st) = Inr els"
    using dot_lines_shape [OF assms(2)] by blast
  have "length nls = length (map fst (nodes st))"
    using map_each_length [OF s(2)] by simp
  also have "\<dots> = card (set (map fst (nodes st)))"
    using assms(1) distinct_card by fastforce
  finally have "length nls = card (fst ` set (nodes st))" by simp
  with s show ?thesis by blast
qed

lemma generate_dot_nodes:
  assumes "distinct (map fst (nodes st))" and "generate_dot st = Inr dot_text"
  shows "\<exists>nls els. dot_text = join [CHR 0x0A] (dot_header st @ nls @ [''''] @ els @ [''}''])
           \<and> map_each node_statement (nodes st) = Inr nls
           \<and> map_each edge_statement (edges st) = Inr els
           \<and> length nls = card (fst ` set (nodes st))"
proof -
  from assms(2) obtain ls where ls: "dot_lines st = Inr ls" "dot_text = join [CHR 0x0A] ls"
    unfolding generate_dot_def by (auto split: sum.splits)
  from dot_lines_nodes [OF assms(1) ls(1)] ls(2) show ?thesis by blast
qed

lemma convert_nodes:
  assumes "distinct (map fst (nodes st0))" and "convert st0 doc = Inr out"
  shows "\<exists>st1 nls els. build st0 doc = Inr st1
           \<and> distinct (map fst (nodes st1))
           \<and> map_each node_statement (nodes st1) = Inr nls
           \<and> map_each edge_statement (edges st1) = Inr els
           \<and> length nls = card (fst ` set (nodes st1))
           \<and> out = join [CHR 0x0A] (dot_header st1 @ nls @ [''''] @ els @ [''}''])"
proof -
  from assms(2) obtain st1 where st1: "build st0 doc = Inr st1" "generate_dot st1 = Inr out"
    unfolding convert_def by (auto split: sum.splits)
  have d: "distinct (map fst (nodes st1))"
    using build_distinct [OF st1(1) assms(1)] .
  from generate_dot_nodes [OF d st1(2)] st1(1) d show ?thesis by blast
qed

text \<open>
  Claim C10. The node table holds at most one descriptor per identifier. A node item with
  \<^verbatim>\<open>@id\<close> \<open>i\<close> stores under \<open>i\<close> the descriptor built from this item alone (the one it
  would store in an empty table), replacing what an earlier item with the same \<^verbatim>\<open>@id\<close>
  stored, and the table does not grow when \<open>i\<close> was there already. The identifiers of the
  table stay distinct over \<^verbatim>\<open>convert\<close> up to the generation of the DOT text. The DOT
  text that \<^verbatim>\<open>_generate_dot\<close> and \<^verbatim>\<open>convert\<close> return is the header, exactly one node
  statement per distinct identifier of the table, an empty line, the edge statements and
  the closing brace, joined by newlines.
\<close>

theorem node_table_one_descriptor_per_id:
  "(map_of NODE_SHAPES t = Some shape \<and> map_of item ''@type'' = Some (JStr t)
      \<and> map_of item ''@id'' = Some (JStr i) \<longrightarrow>
      (\<exists>nd. process_item st (JObj item) = Inr (st\<lparr>nodes := AList.update (JStr i) nd (nodes st)\<rparr>)
          \<and> process_item (st\<lparr>nodes := []\<rparr>) (JObj item) = Inr (st\<lparr>nodes := [(JStr i, nd)]\<rparr>)
          \<and> map_of (AList.update (JStr i) nd (nodes st)) (JStr i) = Some nd
          \<and> (JStr i \<in> fst ` set (nodes st) \<longrightarrow>
               length (AList.update (JStr i) nd (nodes st)) = length (nodes st))))
   \<and> (distinct (map fst (nodes st0)) \<and> build st0 doc = Inr st1 \<longrightarrow>
        distinct (map fst (nodes st1)))
   \<and> (distinct (map fst (nodes st1)) \<and> dot_lines st1 = Inr ls \<longrightarrow>
        (\<exists>nls els. ls = dot_header st1 @ nls @ [''''] @ els @ [''}'']
            \<and> map_each node_statement (nodes st1) = Inr nls
            \<and> length nls = card (fst ` set (nodes st1))))
   \<and> (distinct (map fst (nodes st1)) \<and> generate_dot st1 = Inr dot_text \<longrightarrow>
        (\<exists>nls els. dot_text = join [CHR 0x0A] (dot_header st1 @ nls @ [''''] @ els @ [''}''])
            \<and> map_each node_statement (nodes st1) = Inr nls
            \<and> map_each edge_statement (edges st1) = Inr els
            \<and> length nls = card (fst ` set (nodes st1))))
   \<and> (distinct (map fst (nodes st0)) \<and> convert st0 doc = Inr out \<longrightarrow>
        (\<exists>st2 nls els. build st0 doc = Inr st2
            \<and> distinct (map fst (nodes st2))
            \<and> map_each node_statement (nodes st2) = Inr nls
            \<and> map_each edge_statement (edges st2) = Inr els
            \<and> length nls = card (fst ` set (nodes st2))
            \<and> out = join [CHR 0x0A] (dot_header st2 @ nls @ [''''] @ els @ [''}''])))"
proof (intro conjI impI)
  assume a: "map_of NODE_SHAPES t = Some shape \<and> map_of item ''@type'' = Some (JStr t)
      \<and> map_of item ''@id'' = Some (JStr i)"
  then obtain nd where nd: "\<And>ns. process_node (st\<lparr>nodes := ns\<rparr>) item =
            Inr (st\<lparr>nodes := AList.update (JStr i) nd ns\<rparr>)"
    using process_node_str_id [of t shape item i st] by (auto simp: dict_get_def)
  have p: "process_item s (JObj item) = process_node s item" for s
    using a process_item_node by blast
  have 1: "process_item st (JObj item) = Inr (st\<lparr>nodes := AList.update (JStr i) nd (nodes st)\<rparr>)"
    using nd [of "nodes st"] p by simp
  have 2: "process_item (st\<lparr>nodes := []\<rparr>) (JObj item) = Inr (st\<lparr>nodes := [(JStr i, nd)]\<rparr>)"
    using nd [of "[]"] p by simp
  have 3: "map_of (AList.update (JStr i) nd (nodes st)) (JStr i) = Some nd"
    by (simp add: update_conv')
  have 4: "JStr i \<in> fst ` set (nodes st) \<longrightarrow>
               length (AList.update (JStr i) nd (nodes st)) = length (nodes st)"
  proof
    assume "JStr i \<in> fst ` set (nodes st)"
    then have "map fst (AList.update (JStr i) nd (nodes st)) = map fst (nodes st)"
      by (simp add: update_keys)
    then show "length (AList.update (JStr i) nd (nodes st)) = length (nodes st)"
      by (metis length_map)
  qed
  from 1 2 3 4 show "\<exists>nd. process_item st (JObj item) = Inr (st\<lparr>nodes := AList.update (JStr i) nd (nodes st)\<rparr>)
          \<and> process_item (st\<lparr>nodes := []\<rparr>) (JObj item) = Inr (st\<lparr>nodes := [(JStr i, nd)]\<rparr>)
          \<and> map_of (AList.update (JStr i) nd (nodes st)) (JStr i) = Some nd
          \<and> (JStr i \<in> fst ` set (nodes st) \<longrightarrow>
               length (AList.update (JStr i) nd (nodes st)) = length (nodes st))"
    by blast
next
  assume "distinct (map fst (nodes st0)) \<and> build st0 doc = Inr st1"
  then show "distinct (map fst (nodes st1))"
    using build_distinct by blast
next
  assume "distinct (map fst (nodes st1)) \<and> dot_lines st1 = Inr ls"
  then show "\<exists>nls els. ls = dot_header st1 @ nls @ [''''] @ els @ [''}'']
            \<and> map_each node_statement (nodes st1) = Inr nls
            \<and> length nls = card (fst ` set (nodes st1))"
    using dot_lines_nodes [of st1 ls] by blast
next
  assume "distinct (map fst (nodes st1)) \<and> generate_dot st1 = Inr dot_text"
  then show "\<exists>nls els. dot_text = join [CHR 0x0A] (dot_header st1 @ nls @ [''''] @ els @ [''}''])
            \<and> map_each node_statement (nodes st1) = Inr nls
            \<and> map_each edge_statement (edges st1) = Inr els
            \<and> length nls = card (fst ` set (nodes st1))"
    using generate_dot_nodes [of st1 dot_text] by blast
next
  assume "distinct (map fst (nodes st0)) \<and> convert st0 doc = Inr out"
  then show "\<exists>st2 nls els. build st0 doc = Inr st2
            \<and> distinct (map fst (nodes st2))
            \<and> map_each node_statement (nodes st2) = Inr nls
            \<and> map_each edge_statement (edges st2) = Inr els
            \<and> length nls = card (fst ` set (nodes st2))
            \<and> out = join [CHR 0x0A] (dot_header st2 @ nls @ [''''] @ els @ [''}''])"
    using convert_nodes [of st0 doc out] by blast
qed

text \<open>Two entity items with the \<^verbatim>\<open>@id\<close> \<^verbatim>\<open>e1\<close>, the first one labelled.\<close>

lemma node_table_run:
  "build (init True ''LR'')
     (JObj [(''@graph'', JList
       [JObj [(''@type'', JStr ''prov:Entity''), (''@id'', JStr ''e1''),
              (''prov:label'', JList [JObj [(''@value'', JStr ''first'')]])],
        JObj [(''@type'', JStr ''prov:Entity''), (''@id'', JStr ''e1'')]])]) =
   Inr ((init True ''LR'')\<lparr>nodes :=
         [(JStr ''e1'', \<lparr>n_label = JStr ''e1'', n_shape = ''ellipse'', n_fillcolor = ''#FFFC87'',
             n_style = ''filled'', n_type = JStr ''prov:Entity''\<rparr>)]\<rparr>)"
  by code_simp

lemma node_table_dot:
  "dot_lines
     ((init True ''LR'')\<lparr>nodes :=
       [(JStr ''e1'', \<lparr>n_label = JStr ''e1'', n_shape = ''ellipse'', n_fillcolor = ''#FFFC87'',
           n_style = ''filled'', n_type = JStr ''prov:Entity''\<rparr>)]\<rparr>) =
   Inr (dot_header (init True ''LR'') @
         [''  e1 [label='' @ dq @ ''e1'' @ dq @ '', shape='' @ dq @ ''ellipse'' @ dq
            @ '', fillcolor='' @ dq @ ''#FFFC87'' @ dq @ '', style='' @ dq @ ''filled'' @ dq
            @ '', type='' @ dq @ ''prov:Entity'' @ dq @ ''];'']
         @ [[]] @ [] @ [''}''])"
  by code_simp

lemma node_table_text:
  "convert (init True ''LR'')
     (JObj [(''@graph'', JList
       [JObj [(''@type'', JStr ''prov:Entity''), (''@id'', JStr ''e1''),
              (''prov:label'', JList [JObj [(''@value'', JStr ''first'')]])],
        JObj [(''@type'', JStr ''prov:Entity''), (''@id'', JStr ''e1'')]])]) =
   Inr (join [CHR 0x0A]
         (dot_header (init True ''LR'') @
           [''  e1 [label='' @ dq @ ''e1'' @ dq @ '', shape='' @ dq @ ''ellipse'' @ dq
              @ '', fillcolor='' @ dq @ ''#FFFC87'' @ dq @ '', style='' @ dq @ ''filled'' @ dq
              @ '', type='' @ dq @ ''prov:Entity'' @ dq @ ''];'']
           @ [[]] @ [] @ [''}'']))"
  by (simp add: convert_def generate_dot_def node_table_run node_table_dot)

theorem node_table_one_descriptor_per_id_witness:
  "(\<exists>nd. process_item
            ((init True ''LR'')\<lparr>nodes :=
              [(JStr ''e1'', \<lparr>n_label = JStr ''first'', n_shape = ''ellipse'', n_fillcolor = ''#FFFC87'',
                  n_style = ''filled'', n_type = JStr ''prov:Entity''\<rparr>)]\<rparr>)
            (JObj [(''@type'', JStr ''prov:Entity''), (''@id'', JStr ''e1'')]) =
          Inr ((init True ''LR'')\<lparr>nodes := [(JStr ''e1'', nd)]\<rparr>)
        \<and> process_item (init True ''LR'') (JObj [(''@type'', JStr ''prov:Entity''), (''@id'', JStr ''e1'')]) =
          Inr ((init True ''LR'')\<lparr>nodes := [(JStr ''e1'', nd)]\<rparr>))
   \<and> distinct (map fst (nodes
         ((init True ''LR'')\<lparr>nodes :=
           [(JStr ''e1'', \<lparr>n_label = JStr ''e1'', n_shape = ''ellipse'', n_fillcolor = ''#FFFC87'',
               n_style = ''filled'', n_type = JStr ''prov:Entity''\<rparr>)]\<rparr>)))
   \<and> (\<exists>nls els.
         map_each node_statement
           [(JStr ''e1'', \<lparr>n_label = JStr ''e1'', n_shape = ''ellipse'', n_fillcolor = ''#FFFC87'',
               n_style = ''filled'', n_type = JStr ''prov:Entity''\<rparr>)] = Inr nls
       \<and> length nls = 1)
   \<and> convert (init True ''LR'')
         (JObj [(''@graph'', JList
           [JObj [(''@type'', JStr ''prov:Entity''), (''@id'', JStr ''e1''),
                  (''prov:label'', JList [JObj [(''@value'', JStr ''first'')]])],
            JObj [(''@type'', JStr ''prov:Entity''), (''@id'', JStr ''e1'')]])]) =
       Inr (join [CHR 0x0A]
             (dot_header (init True ''LR'') @
               [''  e1 [label='' @ dq @ ''e1'' @ dq @ '', shape='' @ dq @ ''ellipse'' @ dq
                  @ '', fillcolor='' @ dq @ ''#FFFC87'' @ dq @ '', style='' @ dq @ ''filled'' @ dq
                  @ '', type='' @ dq @ ''prov:Entity'' @ dq @ ''];'']
               @ [[]] @ [] @ [''}'']))
   \<and> (\<exists>st2 nls els.
         build (init True ''LR'')
           (JObj [(''@graph'', JList
             [JObj [(''@type'', JStr ''prov:Entity''), (''@id'', JStr ''e1''),
                    (''prov:label'', JList [JObj [(''@value'', JStr ''first'')]])],
              JObj [(''@type'', JStr ''prov:Entity''), (''@id'', JStr ''e1'')]])]) = Inr st2
       \<and> distinct (map fst (nodes st2))
       \<and> map_each node_statement (nodes st2) = Inr nls
       \<and> map_each edge_statement (edges st2) = Inr els
       \<and> length nls = card (fst ` set (nodes st2))
       \<and> (join [CHR 0x0A]
           (dot_header (init True ''LR'') @
             [''  e1 [label='' @ dq @ ''e1'' @ dq @ '', shape='' @ dq @ ''ellipse'' @ dq
                @ '', fillcolor='' @ dq @ ''#FFFC87'' @ dq @ '', style='' @ dq @ ''filled'' @ dq
                @ '', type='' @ dq @ ''prov:Entity'' @ dq @ ''];'']
             @ [[]] @ [] @ [''}''])) =
           join [CHR 0x0A] (dot_header st2 @ nls @ [[]] @ els @ [''}'']))"
proof -
  let ?item = "[(''@type'', JStr ''prov:Entity''), (''@id'', JStr ''e1'')]"
  let ?s1 = "((init True ''LR'')\<lparr>nodes :=
               [(JStr ''e1'', \<lparr>n_label = JStr ''first'', n_shape = ''ellipse'', n_fillcolor = ''#FFFC87'',
                   n_style = ''filled'', n_type = JStr ''prov:Entity''\<rparr>)]\<rparr>)"
  let ?s2 = "((init True ''LR'')\<lparr>nodes :=
               [(JStr ''e1'', \<lparr>n_label = JStr ''e1'', n_shape = ''ellipse'', n_fillcolor = ''#FFFC87'',
                   n_style = ''filled'', n_type = JStr ''prov:Entity''\<rparr>)]\<rparr>)"
  let ?doc = "(JObj [(''@graph'', JList
                [JObj [(''@type'', JStr ''prov:Entity''), (''@id'', JStr ''e1''),
                       (''prov:label'', JList [JObj [(''@value'', JStr ''first'')]])],
                 JObj [(''@type'', JStr ''prov:Entity''), (''@id'', JStr ''e1'')]])])"
  let ?ls = "(dot_header (init True ''LR'') @
               [''  e1 [label='' @ dq @ ''e1'' @ dq @ '', shape='' @ dq @ ''ellipse'' @ dq
                  @ '', fillcolor='' @ dq @ ''#FFFC87'' @ dq @ '', style='' @ dq @ ''filled'' @ dq
                  @ '', type='' @ dq @ ''prov:Entity'' @ dq @ ''];'']
               @ [[]] @ [] @ [''}''])"
  let ?out = "join [CHR 0x0A] ?ls"
  have h1: "map_of NODE_SHAPES ''prov:Entity'' = Some ''ellipse''
      \<and> map_of ?item ''@type'' = Some (JStr ''prov:Entity'')
      \<and> map_of ?item ''@id'' = Some (JStr ''e1'')"
    by (simp add: NODE_SHAPES_def)
  have d0: "distinct (map fst (nodes (init True ''LR'')))"
    by (simp add: init_def)
  have h2: "distinct (map fst (nodes (init True ''LR'')))
      \<and> build (init True ''LR'') ?doc = Inr ?s2"
    using node_table_run d0 by blast
  have d2: "distinct (map fst (nodes ?s2))"
    by simp
  have h3: "distinct (map fst (nodes ?s2)) \<and> dot_lines ?s2 = Inr ?ls"
    using node_table_dot d2 by blast
  have h5: "distinct (map fst (nodes (init True ''LR'')))
      \<and> convert (init True ''LR'') ?doc = Inr ?out"
    using node_table_text d0 by blast
  have u: "?s1\<lparr>nodes := AList.update (JStr ''e1'') nd (nodes ?s1)\<rparr> =
      (init True ''LR'')\<lparr>nodes := [(JStr ''e1'', nd)]\<rparr>"
    "?s1\<lparr>nodes := []\<rparr> = init True ''LR''"
    "?s1\<lparr>nodes := [(JStr ''e1'', nd)]\<rparr> = (init True ''LR'')\<lparr>nodes := [(JStr ''e1'', nd)]\<rparr>"
    for nd
    by (simp_all add: init_def)
  from node_table_one_descriptor_per_id [of "''prov:Entity''" "''ellipse''" ?item "''e1''" ?s1
      "init True ''LR''" ?doc ?s2 ?ls "[]" ?out] h1 h2 h3 h5
  have a: "(\<exists>nd. process_item ?s1 (JObj ?item) =
              Inr (?s1\<lparr>nodes := AList.update (JStr ''e1'') nd (nodes ?s1)\<rparr>)
          \<and> process_item (?s1\<lparr>nodes := []\<rparr>) (JObj ?item) =
              Inr (?s1\<lparr>nodes := [(JStr ''e1'', nd)]\<rparr>))"
    and b: "\<exists>nls els. map_each node_statement (nodes ?s2) = Inr nls
            \<and> length nls = card (fst ` set (nodes ?s2))"
    and c: "\<exists>st2 nls els. build (init True ''LR'') ?doc = Inr st2
         \<and> distinct (map fst (nodes st2))
         \<and> map_each node_statement (nodes st2) = Inr nls
         \<and> map_each edge_statement (edges st2) = Inr els
         \<and> length nls = card (fst ` set (nodes st2))
         \<and> ?out = join [CHR 0x0A] (dot_header st2 @ nls @ [[]] @ els @ [''}''])"
    by blast+
  from a have a': "\<exists>nd. process_item ?s1 (JObj ?item) =
          Inr ((init True ''LR'')\<lparr>nodes := [(JStr ''e1'', nd)]\<rparr>)
        \<and> process_item (init True ''LR'') (JObj ?item) =
          Inr ((init True ''LR'')\<lparr>nodes := [(JStr ''e1'', nd)]\<rparr>)"
    unfolding u .
  from b have b': "\<exists>nls els.
         map_each node_statement
           [(JStr ''e1'', \<lparr>n_label = JStr ''e1'', n_shape = ''ellipse'', n_fillcolor = ''#FFFC87'',
               n_style = ''filled'', n_type = JStr ''prov:Entity''\<rparr>)] = Inr nls
       \<and> length nls = 1"
    by simp
  from a' d2 b' node_table_text c show ?thesis
    by (intro conjI)
qed

subsection \<open>Nodes without an identifier\<close>

lemma digit_char_digit:
  assumes "d < 10"
  shows "digit_char d \<in> set ''0123456789''"
proof -
  have "d = 0 \<or> d = 1 \<or> d = 2 \<or> d = 3 \<or> d = 4 \<or> d = 5 \<or> d = 6 \<or> d = 7
      \<or> d = 8 \<or> d = 9"
    using assms by presburger
  then show ?thesis by (elim disjE) (simp_all add: digit_char_def)
qed

lemma digit_char_inj:
  assumes "a < 10" and "b < 10" and "digit_char a = digit_char b"
  shows "a = b"
proof -
  have "distinct ''0123456789abcdef''" by simp
  moreover have "a < length ''0123456789abcdef''" "b < length ''0123456789abcdef''"
    using assms(1,2) by simp_all
  ultimately show ?thesis
    using assms(3) unfolding digit_char_def by (simp only: nth_eq_iff_index_eq)
qed

lemma str_nat_not_Nil: "str_nat n \<noteq> []"
  by (subst str_nat.simps) simp

lemma str_nat_digits: "set (str_nat n) \<subseteq> set ''0123456789''"
proof (induction n rule: str_nat.induct)
  case (1 n)
  show ?case
  proof (cases "n < 10")
    case True
    then show ?thesis
      using digit_char_digit [of n] by (subst str_nat.simps) simp
  next
    case False
    have "n mod 10 < 10" by simp
    then have "digit_char (n mod 10) \<in> set ''0123456789''" by (rule digit_char_digit)
    with False "1.IH" show ?thesis
      by (subst str_nat.simps) simp
  qed
qed

lemma str_nat_inj: "str_nat n = str_nat m \<Longrightarrow> n = m"
proof (induction n arbitrary: m rule: str_nat.induct)
  case (1 n)
  show ?case
  proof (cases "n < 10")
    case n: True
    then have sn: "str_nat n = [digit_char n]" by (subst str_nat.simps) simp
    show ?thesis
    proof (cases "m < 10")
      case True
      then have "str_nat m = [digit_char m]" by (subst str_nat.simps) simp
      with sn "1.prems" n True show ?thesis by (simp add: digit_char_inj)
    next
      case False
      then have "str_nat m = str_nat (m div 10) @ [digit_char (m mod 10)]"
        by (subst str_nat.simps) simp
      with sn "1.prems" str_nat_not_Nil [of "m div 10"] show ?thesis by simp
    qed
  next
    case n: False
    then have sn: "str_nat n = str_nat (n div 10) @ [digit_char (n mod 10)]"
      by (subst str_nat.simps) simp
    show ?thesis
    proof (cases "m < 10")
      case True
      then have "str_nat m = [digit_char m]" by (subst str_nat.simps) simp
      with sn "1.prems" str_nat_not_Nil [of "n div 10"] show ?thesis by simp
    next
      case False
      then have "str_nat m = str_nat (m div 10) @ [digit_char (m mod 10)]"
        by (subst str_nat.simps) simp
      with sn "1.prems" have e: "str_nat (n div 10) = str_nat (m div 10)"
        "digit_char (n mod 10) = digit_char (m mod 10)" by simp_all
      from "1.IH" [OF n e(1)] have "n div 10 = m div 10" .
      moreover from e(2) have "n mod 10 = m mod 10" by (simp add: digit_char_inj)
      ultimately show ?thesis by (metis div_mult_mod_eq)
    qed
  qed
qed

lemma make_safe_id_anon: "make_safe_id (JStr (anon_id ns)) = Inr (anon_id ns)"
proof -
  define n where "n = length ns"
  have d: "c \<in> set (str_nat n) \<Longrightarrow> c \<in> set ''0123456789''" for c
    using str_nat_digits by blast
  have s: "sanitized (str_nat n) = str_nat n"
    unfolding sanitized_def by (rule map_idI) (use d in auto)
  have "alnum_char c" if "c \<in> set (str_nat n)" for c
    using d [OF that] by (auto simp: alnum_char_def)
  then have a: "list_all (\<lambda>c. alnum_char c \<or> c = CHR ''_'') (str_nat n)"
    unfolding list_all_iff by blast
  have "sanitized (''anon_'' @ str_nat n) = ''anon_'' @ str_nat n"
    using s by (simp add: sanitized_def)
  moreover have "list_all (\<lambda>c. alnum_char c \<or> c = CHR ''_'') (''anon_'' @ str_nat n)"
    using a by (simp add: alnum_char_def)
  ultimately show ?thesis
    unfolding anon_id_def n_def [symmetric]
    by (simp add: make_safe_id_def Let_def replace_chain_sanitized isalnum_remove_underscore)
qed

text \<open>
  Claim C9, as amended. A graph item of a node type that has no \<^verbatim>\<open>@id\<close> is registered
  under \<^verbatim>\<open>anon_\<close> followed by the number of entries of the node table, and this identifier
  gives one DOT node statement, with the identifier bare. When the table has no entry under
  that identifier yet, the table grows by one entry and an anonymous node that follows
  receives a different identifier.
\<close>

theorem anonymous_node_identifier:
  assumes "map_of NODE_SHAPES t = Some shape" and "map_of item ''@type'' = Some (JStr t)"
    and "map_of item ''@id'' = None"
  shows "\<exists>nd. process_item st (JObj item) =
               Inr (st\<lparr>nodes := AList.update (JStr (anon_id (nodes st))) nd (nodes st)\<rparr>)
     \<and> (JStr (anon_id (nodes st)) \<notin> fst ` set (nodes st) \<longrightarrow>
          length (AList.update (JStr (anon_id (nodes st))) nd (nodes st)) = Suc (length (nodes st))
          \<and> anon_id (AList.update (JStr (anon_id (nodes st))) nd (nodes st)) \<noteq> anon_id (nodes st))
     \<and> (\<exists>props. node_statement (JStr (anon_id (nodes st)), nd) =
                   Inr (''  '' @ anon_id (nodes st) @ '' ['' @ props @ ''];''))"
proof -
  obtain nd where nd: "\<And>ns. process_node (st\<lparr>nodes := ns\<rparr>) item =
            Inr (st\<lparr>nodes := AList.update (JStr (anon_id ns)) nd ns\<rparr>)"
    using process_node_str_id [OF assms(1,2), of "[]" st] assms(3)
    by (auto simp: dict_get_def anon_id_def)
  have 1: "process_item st (JObj item) =
      Inr (st\<lparr>nodes := AList.update (JStr (anon_id (nodes st))) nd (nodes st)\<rparr>)"
    using nd [of "nodes st"] process_item_node [OF assms(1,2), of st] by simp
  have 2: "length (AList.update (JStr (anon_id (nodes st))) nd (nodes st)) = Suc (length (nodes st))
          \<and> anon_id (AList.update (JStr (anon_id (nodes st))) nd (nodes st)) \<noteq> anon_id (nodes st)"
    if "JStr (anon_id (nodes st)) \<notin> fst ` set (nodes st)"
  proof -
    have "map fst (AList.update (JStr (anon_id (nodes st))) nd (nodes st)) =
        map fst (nodes st) @ [JStr (anon_id (nodes st))]"
      using that by (simp add: update_keys)
    then have l: "length (AList.update (JStr (anon_id (nodes st))) nd (nodes st)) =
        Suc (length (nodes st))"
      by (metis length_append_singleton length_map)
    have "str_nat (Suc (length (nodes st))) \<noteq> str_nat (length (nodes st))"
      using str_nat_inj by fastforce
    with l show ?thesis by (simp add: anon_id_def)
  qed
  have 3: "\<exists>props. node_statement (JStr (anon_id (nodes st)), nd) =
                   Inr (''  '' @ anon_id (nodes st) @ '' ['' @ props @ ''];'')"
    by (simp add: node_statement_def Let_def make_safe_id_anon)
  from 1 2 3 show ?thesis by blast
qed

text \<open>The first item of a graph, an activity without \<^verbatim>\<open>@id\<close>.\<close>

theorem anonymous_node_identifier_witness:
  "\<exists>nd. process_item (init True ''LR'') (JObj [(''@type'', JStr ''prov:Activity'')]) =
          Inr ((init True ''LR'')\<lparr>nodes := [(JStr ''anon_0'', nd)]\<rparr>)
       \<and> anon_id [(JStr ''anon_0'', nd)] \<noteq> ''anon_0''
       \<and> (\<exists>props. node_statement (JStr ''anon_0'', nd) =
                     Inr (''  anon_0 ['' @ props @ ''];''))"
proof -
  have z: "str_nat 0 = ''0''" by code_simp
  show ?thesis
    using anonymous_node_identifier [of "''prov:Activity''" "''box''"
       "[(''@type'', JStr ''prov:Activity'')]" "init True ''LR''"]
    by (simp add: NODE_SHAPES_def init_def anon_id_def z)
qed

text \<open>
  Claim C9 as stated fails: after an entity whose \<^verbatim>\<open>@id\<close> is \<^verbatim>\<open>anon_1\<close>, two consecutive
  entities without \<^verbatim>\<open>@id\<close> both receive the identifier \<^verbatim>\<open>anon_1\<close>; the table ends with
  one entry, so the three items give a single DOT node statement.
\<close>

theorem anonymous_nodes_share_identifier:
  "build (init True ''LR'')
     (JObj [(''@graph'', JList
       [JObj [(''@type'', JStr ''prov:Entity''), (''@id'', JStr ''anon_1'')],
        JObj [(''@type'', JStr ''prov:Entity'')],
        JObj [(''@type'', JStr ''prov:Entity'')]])]) =
   Inr ((init True ''LR'')\<lparr>nodes :=
          [(JStr ''anon_1'', \<lparr>n_label = JStr ''anonymous'', n_shape = ''ellipse'',
              n_fillcolor = ''#FFFC87'', n_style = ''filled'',
              n_type = JStr ''prov:Entity''\<rparr>)]\<rparr>)"
  by code_simp

end
